theory Spec2Isabelle
  imports Main
begin

section \<open>JavaScript values read by the client\<close>

text \<open>
  Response bodies and request bodies are typed \<open>any\<close> in the client. They are modelled
  as the values that \<open>JSON.parse\<close> yields, and \<open>undefined\<close>. A Number is given by the
  string that \<open>String\<close> prints for it (\<open>JNum ''42''\<close>, \<open>JNum ''0.5''\<close>,
  \<open>JNum ''1e+21''\<close>; both zeros print as \<open>0\<close>): the client only tests numbers for
  truth, prints them and passes them on. \<open>JObj\<close> lists the own properties of an object,
  each key once.
\<close>

type_synonym js_number = string

datatype jsval =
    JUndefined
  | JNull
  | JBool bool
  | JNum js_number
  | JStr string
  | JArr "jsval list"
  | JObj "(string \<times> jsval) list"

text \<open>A run-time exception that is not one of the SDK's own error classes.\<close>

datatype js_exception = TypeError

text \<open>ToBoolean: what \<open>||\<close>, \<open>&&\<close>, \<open>!\<close> and \<open>?:\<close> test.\<close>

fun truthy :: "jsval \<Rightarrow> bool" where
  "truthy JUndefined = False"
| "truthy JNull = False"
| "truthy (JBool b) = b"
| "truthy (JNum n) = (n \<noteq> ''0'' \<and> n \<noteq> ''NaN'')"
| "truthy (JStr s) = (s \<noteq> [])"
| "truthy (JArr xs) = True"
| "truthy (JObj kvs) = True"

text \<open>\<open>a || b\<close>: the left operand when it is truthy, else the right one.\<close>

definition js_or :: "jsval \<Rightarrow> jsval \<Rightarrow> jsval" where
  "js_or a b = (if truthy a then a else b)"

text \<open>
  \<open>v.k\<close> for a property name \<open>k\<close> that only plain objects can carry (\<open>message\<close>,
  \<open>error\<close>): reading it from \<open>undefined\<close> or \<open>null\<close> raises a TypeError, from a
  primitive or an array it is \<open>undefined\<close>.
\<close>

fun get_prop :: "jsval \<Rightarrow> string \<Rightarrow> js_exception + jsval" where
  "get_prop JUndefined k = Inl TypeError"
| "get_prop JNull k = Inl TypeError"
| "get_prop (JObj kvs) k = Inr (case map_of kvs k of None \<Rightarrow> JUndefined | Some v \<Rightarrow> v)"
| "get_prop v k = Inr JUndefined"

text \<open>Optional chaining \<open>v?.k\<close>.\<close>

definition opt_chain :: "jsval \<Rightarrow> string \<Rightarrow> js_exception + jsval" where
  "opt_chain v k = (if v = JUndefined \<or> v = JNull then Inr JUndefined else get_prop v k)"

subsection \<open>ToString\<close>

text \<open>
  \<open>Array.prototype.join\<close> with the separator \<open>,\<close>, on the elements already converted:
  the first conversion that throws ends the join.
\<close>

fun join_elements :: "(js_exception + string) list \<Rightarrow> js_exception + string" where
  "join_elements [] = Inr []"
| "join_elements [r] = r"
| "join_elements (r # rs) =
     (case r of
        Inl x \<Rightarrow> Inl x
      | Inr s \<Rightarrow> (case join_elements rs of Inl x \<Rightarrow> Inl x | Inr t \<Rightarrow> Inr (s @ '','' @ t)))"

text \<open>
  ToString, which the \<open>Error\<close> constructor applies to its message. A primitive prints as
  itself. An array prints as the join of its elements, \<open>undefined\<close> and \<open>null\<close> elements
  printing as the empty string. A plain object is converted by its \<open>toString\<close> method:
  the inherited one gives \<open>[object Object]\<close>; an own property \<open>toString\<close> of a parsed body
  is no function, neither is an own \<open>valueOf\<close>, and the inherited \<open>valueOf\<close> returns the
  object itself, so the conversion throws a TypeError.
\<close>

fun js_to_string :: "jsval \<Rightarrow> js_exception + string" where
  "js_to_string JUndefined = Inr ''undefined''"
| "js_to_string JNull = Inr ''null''"
| "js_to_string (JBool b) = Inr (if b then ''true'' else ''false'')"
| "js_to_string (JNum n) = Inr n"
| "js_to_string (JStr s) = Inr s"
| "js_to_string (JArr xs) =
     join_elements
       (map (\<lambda>x. if x = JUndefined \<or> x = JNull then Inr [] else js_to_string x) xs)"
| "js_to_string (JObj kvs) =
     (case map_of kvs ''toString'' of
        None \<Rightarrow> Inr ''[object Object]''
      | Some v \<Rightarrow> Inl TypeError)"

subsection \<open>parseInt\<close>

text \<open>
  The result of \<open>parseInt\<close>: \<open>NaN\<close>, or the Number for a mathematical integer. Every
  integer up to \<open>2 ^ 53\<close> in magnitude is a Number (\<open>Num n\<close>; \<open>-0\<close> and \<open>0\<close> are both
  \<open>Num 0\<close>). Beyond that the result is a Number near the integer, rounded as the engine
  rounds it (\<open>Approx n\<close>), and nothing more is said of its value.
\<close>

datatype jsint = NaN | Num int | Approx int

definition number_of_int :: "int \<Rightarrow> jsint" where
  "number_of_int n = (if \<bar>n\<bar> \<le> 2 ^ 53 then Num n else Approx n)"

text \<open>
  Header values are strings of Latin-1 code units. White space among them: TAB, LF, VT,
  FF, CR, SP and NBSP.
\<close>

definition is_white_space :: "char \<Rightarrow> bool" where
  "is_white_space c = (of_char c \<in> {9, 10, 11, 12, 13, 32, 160 :: nat})"

definition digit_value :: "char \<Rightarrow> nat option" where
  "digit_value c =
     (let n = (of_char c :: nat) in
      if 48 \<le> n \<and> n \<le> 57 then Some (n - 48)
      else if 97 \<le> n \<and> n \<le> 122 then Some (n - 87)
      else if 65 \<le> n \<and> n \<le> 90 then Some (n - 55)
      else None)"

definition is_radix_digit :: "nat \<Rightarrow> char \<Rightarrow> bool" where
  "is_radix_digit R c = (case digit_value c of None \<Rightarrow> False | Some d \<Rightarrow> d < R)"

definition radix_value :: "nat \<Rightarrow> string \<Rightarrow> nat" where
  "radix_value R Z =
     foldl (\<lambda>a c. a * R + (case digit_value c of None \<Rightarrow> 0 | Some d \<Rightarrow> d)) 0 Z"

text \<open>
  \<open>parseInt(s)\<close> with no radix argument: skip leading white space, read a sign, take
  radix 16 after a \<open>0x\<close>/\<open>0X\<close> prefix and radix 10 otherwise, and read the longest
  prefix of digits; no digit gives \<open>NaN\<close>.
\<close>

definition parseInt :: "string \<Rightarrow> jsint" where
  "parseInt inputString =
     (let S = dropWhile is_white_space inputString;
          sign = (if S \<noteq> [] \<and> hd S = CHR ''-'' then - 1 else (1::int));
          S1 = (if S \<noteq> [] \<and> (hd S = CHR ''+'' \<or> hd S = CHR ''-'') then tl S else S);
          hex = (take 2 S1 = ''0x'' \<or> take 2 S1 = ''0X'');
          R = (if hex then 16 else 10);
          S2 = (if hex then drop 2 S1 else S1);
          Z = takeWhile (is_radix_digit R) S2
      in if Z = [] then NaN else number_of_int (sign * int (radix_value R Z)))"

section \<open>Failures delivered by the HTTP transport\<close>

text \<open>
  The response of a failed call, as the transport hands it over: \<open>error.response\<close> with
  its numeric \<open>status\<close>, its decoded body \<open>data\<close> (any value) and its \<open>headers\<close>, an
  object that every response of the transport has, from lower-case header names to
  string values.
\<close>

record AxiosResponse =
  status :: int
  data :: jsval
  headers :: "string \<rightharpoonup> string"

text \<open>
  The rejection value \<open>error\<close>: an optional transport \<open>code\<close>, an optional \<open>message\<close>
  and the \<open>response\<close>, absent when no HTTP response was received.
\<close>

record AxiosError =
  code :: "string option"
  message :: "string option"
  response :: "AxiosResponse option"

section \<open>The error classes (types.ts)\<close>

datatype error_class =
    HashubVectorErrorC
  | AuthenticationErrorC
  | RateLimitErrorC
  | QuotaExceededErrorC
  | ValidationErrorC
  | ServerErrorC
  | NetworkErrorC
  | TimeoutErrorC

text \<open>
  An instance of \<open>HashubVectorError\<close> or of one of its subclasses. \<open>retryAfter\<close> is the
  extra field of \<open>RateLimitError\<close>, absent in every other class.
\<close>

record HashubVectorError =
  cls :: error_class
  name :: string
  message :: string
  code :: "string option"
  status :: "int option"
  details :: jsval
  retryAfter :: "jsint option"

text \<open>A parameter with a default value takes the default when the argument is \<open>undefined\<close>.\<close>

definition default_arg :: "jsval \<Rightarrow> string \<Rightarrow> jsval" where
  "default_arg v d = (if v = JUndefined then JStr d else v)"

text \<open>
  \<open>super(message)\<close> in \<open>HashubVectorError\<close>: the \<open>Error\<close> constructor stores ToString of
  its argument as the message (the empty message of the prototype when the argument is
  \<open>undefined\<close>), and throws what ToString throws.
\<close>

definition error_message :: "jsval \<Rightarrow> js_exception + string" where
  "error_message msg = (if msg = JUndefined then Inr [] else js_to_string msg)"

definition new_HashubVectorError ::
  "jsval \<Rightarrow> string option \<Rightarrow> int option \<Rightarrow> jsval \<Rightarrow> js_exception + HashubVectorError" where
  "new_HashubVectorError msg c st det =
     (case error_message msg of
        Inl x \<Rightarrow> Inl x
      | Inr m \<Rightarrow>
          Inr \<lparr>cls = HashubVectorErrorC, name = ''HashubVectorError'', message = m,
               code = c, status = st, details = det, retryAfter = None\<rparr>)"

text \<open>
  A subclass constructor: the call of \<open>super\<close> with the class's code and status, then
  the assignments to \<open>this\<close>.
\<close>

definition new_AuthenticationError :: "jsval \<Rightarrow> js_exception + HashubVectorError" where
  "new_AuthenticationError msg =
     (case new_HashubVectorError (default_arg msg ''Invalid API key or authentication failed'')
             (Some ''AUTHENTICATION_ERROR'') (Some 401) JUndefined of
        Inl x \<Rightarrow> Inl x
      | Inr e \<Rightarrow> Inr (e\<lparr>cls := AuthenticationErrorC, name := ''AuthenticationError''\<rparr>))"

definition new_RateLimitError :: "jsval \<Rightarrow> jsint option \<Rightarrow> js_exception + HashubVectorError" where
  "new_RateLimitError msg ra =
     (case new_HashubVectorError (default_arg msg ''Rate limit exceeded'')
             (Some ''RATE_LIMIT_ERROR'') (Some 429) JUndefined of
        Inl x \<Rightarrow> Inl x
      | Inr e \<Rightarrow> Inr (e\<lparr>cls := RateLimitErrorC, name := ''RateLimitError'', retryAfter := ra\<rparr>))"

definition new_QuotaExceededError :: "jsval \<Rightarrow> js_exception + HashubVectorError" where
  "new_QuotaExceededError msg =
     (case new_HashubVectorError (default_arg msg ''Token quota exceeded'')
             (Some ''QUOTA_EXCEEDED_ERROR'') (Some 402) JUndefined of
        Inl x \<Rightarrow> Inl x
      | Inr e \<Rightarrow> Inr (e\<lparr>cls := QuotaExceededErrorC, name := ''QuotaExceededError''\<rparr>))"

definition new_ValidationError :: "jsval \<Rightarrow> js_exception + HashubVectorError" where
  "new_ValidationError msg =
     (case new_HashubVectorError (default_arg msg ''Request validation failed'')
             (Some ''VALIDATION_ERROR'') (Some 400) JUndefined of
        Inl x \<Rightarrow> Inl x
      | Inr e \<Rightarrow> Inr (e\<lparr>cls := ValidationErrorC, name := ''ValidationError''\<rparr>))"

definition new_ServerError :: "jsval \<Rightarrow> js_exception + HashubVectorError" where
  "new_ServerError msg =
     (case new_HashubVectorError (default_arg msg ''Internal server error'')
             (Some ''SERVER_ERROR'') (Some 500) JUndefined of
        Inl x \<Rightarrow> Inl x
      | Inr e \<Rightarrow> Inr (e\<lparr>cls := ServerErrorC, name := ''ServerError''\<rparr>))"

definition new_NetworkError :: "jsval \<Rightarrow> js_exception + HashubVectorError" where
  "new_NetworkError msg =
     (case new_HashubVectorError (default_arg msg ''Network connection error'')
             (Some ''NETWORK_ERROR'') None JUndefined of
        Inl x \<Rightarrow> Inl x
      | Inr e \<Rightarrow> Inr (e\<lparr>cls := NetworkErrorC, name := ''NetworkError''\<rparr>))"

definition new_TimeoutError :: "jsval \<Rightarrow> js_exception + HashubVectorError" where
  "new_TimeoutError msg =
     (case new_HashubVectorError (default_arg msg ''Request timeout'')
             (Some ''TIMEOUT_ERROR'') None JUndefined of
        Inl x \<Rightarrow> Inl x
      | Inr e \<Rightarrow> Inr (e\<lparr>cls := TimeoutErrorC, name := ''TimeoutError''\<rparr>))"

section \<open>The classifier: HashubVector.handleError\<close>

text \<open>\<open>error.message\<close> as a value: \<open>undefined\<close> when the failure has none.\<close>

definition message_val :: "string option \<Rightarrow> jsval" where
  "message_val m = (case m of None \<Rightarrow> JUndefined | Some s \<Rightarrow> JStr s)"

text \<open>
  \<open>const message = data?.message || data?.error || 'Unknown error'\<close>; the right operand
  of \<open>||\<close> is evaluated only when the left one is falsy.
\<close>

definition extract_message :: "jsval \<Rightarrow> js_exception + jsval" where
  "extract_message d =
     (case opt_chain d ''message'' of
        Inl x \<Rightarrow> Inl x
      | Inr m \<Rightarrow>
          if truthy m then Inr m
          else (case opt_chain d ''error'' of
                  Inl x \<Rightarrow> Inl x
                | Inr e \<Rightarrow> Inr (js_or e (JStr ''Unknown error''))))"

text \<open>
  \<open>handleError\<close> always throws. \<open>Inr e\<close> is the SDK error it throws by design, \<open>Inl x\<close>
  an exception raised while it was classifying.
\<close>

definition handleError :: "AxiosError \<Rightarrow> js_exception + HashubVectorError" where
  "handleError error =
     (if AxiosError.code error = Some ''ECONNABORTED'' \<or> AxiosError.code error = Some ''ETIMEDOUT''
      then new_TimeoutError (JStr ''Request timeout'')
      else if AxiosError.code error = Some ''ENOTFOUND'' \<or> AxiosError.code error = Some ''ECONNREFUSED''
      then new_NetworkError (JStr ''Network connection error'')
      else case AxiosError.response error of
        None \<Rightarrow>
          new_NetworkError (js_or (message_val (AxiosError.message error)) (JStr ''Network error''))
      | Some r \<Rightarrow>
          (case extract_message (AxiosResponse.data r) of
             Inl x \<Rightarrow> Inl x
           | Inr msg \<Rightarrow>
               if AxiosResponse.status r = 401 then new_AuthenticationError msg
               else if AxiosResponse.status r = 402 then new_QuotaExceededError msg
               else if AxiosResponse.status r = 400 then new_ValidationError msg
               else if AxiosResponse.status r = 429 then
                 (let retryAfter = AxiosResponse.headers r ''retry-after'' in
                  new_RateLimitError msg
                    (case retryAfter of
                       None \<Rightarrow> None
                     | Some h \<Rightarrow> if h \<noteq> [] then Some (parseInt h) else None))
               else if AxiosResponse.status r \<in> {500, 502, 503, 504} then new_ServerError msg
               else new_HashubVectorError msg (Some ''API_ERROR'')
                      (Some (AxiosResponse.status r)) (AxiosResponse.data r)))"

section \<open>Configuration and construction (HashubVector.constructor)\<close>

text \<open>
  An object whose properties are strings, in insertion order, each key once. Assigning
  to a key that the object has replaces the value in place; a new key goes last.
\<close>

type_synonym js_headers = "(string \<times> string) list"

fun js_assign :: "js_headers \<Rightarrow> string \<Rightarrow> string \<Rightarrow> js_headers" where
  "js_assign [] k v = [(k, v)]"
| "js_assign ((k', v') # ps) k v =
     (if k' = k then (k', v) # ps else (k', v') # js_assign ps k v)"

text \<open>\<open>{ ...base, ...extra }\<close>: the properties of \<open>extra\<close> assigned to a copy of \<open>base\<close>.\<close>

definition js_spread :: "js_headers \<Rightarrow> js_headers \<Rightarrow> js_headers" where
  "js_spread base extra = foldl (\<lambda>obj (k, v). js_assign obj k v) base extra"

text \<open>
  \<open>HashubVectorConfig\<close>: only \<open>apiKey\<close> is required; an optional property that the
  caller leaves out is \<open>None\<close>. Numbers are the integers the interface documents
  (milliseconds, a number of attempts).
\<close>

record HashubVectorConfig =
  apiKey :: string
  baseUrl :: "string option"
  timeout :: "int option"
  maxRetries :: "int option"
  headers :: "js_headers option"

text \<open>\<open>Required<HashubVectorConfig>\<close>, the type of the stored \<open>this.config\<close>.\<close>

record RequiredConfig =
  apiKey :: string
  baseUrl :: string
  timeout :: int
  maxRetries :: int
  headers :: js_headers

text \<open>The defaults and headers given to \<open>axios.create\<close>.\<close>

record AxiosInstance =
  baseURL :: string
  timeout :: int
  headers :: js_headers

record HashubVector =
  config :: RequiredConfig
  client :: AxiosInstance

text \<open>
  One property of \<open>{ ...defaults, ...config }\<close>: the default, overwritten when the
  caller's object has the property.
\<close>

definition spread_over :: "'a \<Rightarrow> 'a option \<Rightarrow> 'a" where
  "spread_over d v = (case v of None \<Rightarrow> d | Some x \<Rightarrow> x)"

definition stored_config :: "HashubVectorConfig \<Rightarrow> RequiredConfig" where
  "stored_config cfg =
     \<lparr>apiKey = HashubVectorConfig.apiKey cfg,
      baseUrl = spread_over ''https://api.vector.hashub.dev'' (HashubVectorConfig.baseUrl cfg),
      timeout = spread_over 30000 (HashubVectorConfig.timeout cfg),
      maxRetries = spread_over 3 (HashubVectorConfig.maxRetries cfg),
      headers = spread_over [] (HashubVectorConfig.headers cfg)\<rparr>"

text \<open>
  The \<open>headers\<close> literal of \<open>axios.create\<close>: three fixed entries, then the spread of
  \<open>this.config.headers\<close>.
\<close>

definition create_headers :: "RequiredConfig \<Rightarrow> js_headers" where
  "create_headers c =
     js_spread
       [(''Authorization'', ''Bearer '' @ RequiredConfig.apiKey c),
        (''Content-Type'', ''application/json''),
        (''User-Agent'', ''hashub-vector-js/1.0.0'')]
       (RequiredConfig.headers c)"

definition new_HashubVector :: "HashubVectorConfig \<Rightarrow> HashubVector" where
  "new_HashubVector cfg =
     (let c = stored_config cfg in
      \<lparr>config = c,
       client = \<lparr>baseURL = RequiredConfig.baseUrl c,
                 timeout = RequiredConfig.timeout c,
                 headers = create_headers c\<rparr>\<rparr>)"

subsection \<open>The header a request is sent with\<close>






section \<open>The request executor: HashubVector.makeRequest\<close>

datatype http_method = GET | POST

text \<open>The optional fourth argument of \<open>makeRequest\<close>; callers only ever set \<open>params\<close>.\<close>

record AxiosRequestConfig =
  params :: "string \<rightharpoonup> string"

text \<open>The object handed to \<open>this.client.request\<close>: \<open>{ method, url: endpoint, data, ...config }\<close>.\<close>

record Request =
  "method" :: http_method
  url :: string
  data :: jsval
  params :: "(string \<rightharpoonup> string) option"

text \<open>
  What one HTTP call does: it resolves with a response whose \<open>data\<close> is the decoded
  body, or it rejects with a transport failure.
\<close>

datatype 'a outcome = Resolved 'a | Rejected AxiosError

text \<open>
  What a \<open>catch\<close> or the caller can receive: \<open>undefined\<close> (the initial \<open>lastError\<close>),
  a run-time exception, or an SDK error.
\<close>

datatype thrown = ThrownUndefined | ThrownException js_exception | ThrownError HashubVectorError

text \<open>
  The observable effects of a call, in order: each request issued through the client and
  each \<open>setTimeout\<close> wait with its delay in milliseconds.
\<close>

datatype event = HttpRequest AxiosInstance Request | Sleep nat

text \<open>
  The response interceptor installed by the constructor: a rejected call is passed to
  \<open>handleError\<close>, and what that throws is what \<open>client.request\<close> rejects with.
\<close>

definition intercept :: "AxiosError \<Rightarrow> thrown" where
  "intercept f = (case handleError f of Inl x \<Rightarrow> ThrownException x | Inr e \<Rightarrow> ThrownError e)"

fun thrown_status :: "thrown \<Rightarrow> int option" where
  "thrown_status (ThrownError e) = HashubVectorError.status e"
| "thrown_status t = None"

text \<open>
  \<open>error.status && error.status >= 400 && error.status < 500 && error.status !== 429\<close>
\<close>

definition is_client_error :: "thrown \<Rightarrow> bool" where
  "is_client_error t =
     (case thrown_status t of
        None \<Rightarrow> False
      | Some s \<Rightarrow> s \<noteq> 0 \<and> s \<ge> 400 \<and> s < 500 \<and> s \<noteq> 429)"

text \<open>\<open>Math.pow(2, attempt) * 1000\<close>\<close>

definition backoff_delay :: "nat \<Rightarrow> nat" where
  "backoff_delay attempt = 2 ^ attempt * 1000"

text \<open>
  The \<open>for\<close> loop of \<open>makeRequest\<close> from a given \<open>attempt\<close> on, with the current
  \<open>lastError\<close>. \<open>tr i\<close> is the outcome of the HTTP call of attempt \<open>i\<close>. The result is
  the trace of effects and either the thrown value (\<open>Inl\<close>) or the returned
  \<open>response.data\<close> (\<open>Inr\<close>).
\<close>

function makeRequest_loop ::
  "HashubVector \<Rightarrow> Request \<Rightarrow> (nat \<Rightarrow> 'a outcome) \<Rightarrow> nat \<Rightarrow> thrown \<Rightarrow> event list \<times> (thrown + 'a)" where
  "makeRequest_loop this req tr attempt lastError =
     (if int attempt < RequiredConfig.maxRetries (config this) then
        (case tr attempt of
           Resolved d \<Rightarrow> ([HttpRequest (client this) req], Inr d)
         | Rejected f \<Rightarrow>
             (let error = intercept f in
              if is_client_error error then ([HttpRequest (client this) req], Inl error)
              else
                (let wait = (if int attempt < RequiredConfig.maxRetries (config this) - 1
                             then [Sleep (backoff_delay attempt)] else []);
                     rest = makeRequest_loop this req tr (Suc attempt) error
                 in (HttpRequest (client this) req # wait @ fst rest, snd rest))))
      else ([], Inl lastError))"
  by pat_completeness auto
termination
  by (relation "measure (\<lambda>(this, req, tr, attempt, lastError).
        nat (RequiredConfig.maxRetries (config this) - int attempt))") auto

definition makeRequest ::
  "HashubVector \<Rightarrow> http_method \<Rightarrow> string \<Rightarrow> jsval \<Rightarrow> AxiosRequestConfig option \<Rightarrow>
   (nat \<Rightarrow> 'a outcome) \<Rightarrow> event list \<times> (thrown + 'a)" where
  "makeRequest this m endpoint d cfg tr =
     makeRequest_loop this
       \<lparr>method = m, url = endpoint, data = d,
        params = (case cfg of None \<Rightarrow> None | Some c \<Rightarrow> Some (AxiosRequestConfig.params c))\<rparr>
       tr 0 ThrownUndefined"

section \<open>The typed operations\<close>

datatype EmbeddingModel = gte_base | nomic_base | e5_base | mpnet_base | e5_small | minilm_base

text \<open>The string literal each member of the union type \<open>EmbeddingModel\<close> is.\<close>

fun model_string :: "EmbeddingModel \<Rightarrow> string" where
  "model_string gte_base = ''gte_base''"
| "model_string nomic_base = ''nomic_base''"
| "model_string e5_base = ''e5_base''"
| "model_string mpnet_base = ''mpnet_base''"
| "model_string e5_small = ''e5_small''"
| "model_string minilm_base = ''minilm_base''"

record VectorizeRequest =
  text' :: string
  model :: "EmbeddingModel option"
  chunkSize :: "js_number option"
  chunkOverlap :: "js_number option"

record VectorizeBatchRequest =
  texts :: "string list"
  model :: "EmbeddingModel option"
  chunkSize :: "js_number option"
  chunkOverlap :: "js_number option"

record SimilarityRequest =
  text1 :: string
  text2 :: string
  model :: "EmbeddingModel option"

record OpenAIEmbeddingRequest =
  input :: "string + string list"
  model :: EmbeddingModel
  user :: "string option"


text \<open>An optional property read as a value: \<open>undefined\<close> when it is left out.\<close>

definition model_val :: "EmbeddingModel option \<Rightarrow> jsval" where
  "model_val m = (case m of None \<Rightarrow> JUndefined | Some x \<Rightarrow> JStr (model_string x))"

definition number_val :: "js_number option \<Rightarrow> jsval" where
  "number_val n = (case n of None \<Rightarrow> JUndefined | Some x \<Rightarrow> JNum x)"


definition vectorize ::
  "HashubVector \<Rightarrow> VectorizeRequest \<Rightarrow> (nat \<Rightarrow> 'a outcome) \<Rightarrow> event list \<times> (thrown + 'a)" where
  "vectorize this request tr =
     makeRequest this POST ''/vectorize''
       (JObj [(''text'', JStr (text' request)),
              (''model'', js_or (model_val (VectorizeRequest.model request)) (JStr ''e5_base'')),
              (''chunk_size'', number_val (VectorizeRequest.chunkSize request)),
              (''chunk_overlap'', number_val (VectorizeRequest.chunkOverlap request))])
       None tr"

definition vectorizeBatch ::
  "HashubVector \<Rightarrow> VectorizeBatchRequest \<Rightarrow> (nat \<Rightarrow> 'a outcome) \<Rightarrow> event list \<times> (thrown + 'a)" where
  "vectorizeBatch this request tr =
     makeRequest this POST ''/vectorize-batch''
       (JObj [(''texts'', JArr (map JStr (texts request))),
              (''model'', js_or (model_val (VectorizeBatchRequest.model request)) (JStr ''e5_base'')),
              (''chunk_size'', number_val (VectorizeBatchRequest.chunkSize request)),
              (''chunk_overlap'', number_val (VectorizeBatchRequest.chunkOverlap request))])
       None tr"

definition similarity ::
  "HashubVector \<Rightarrow> SimilarityRequest \<Rightarrow> (nat \<Rightarrow> 'a outcome) \<Rightarrow> event list \<times> (thrown + 'a)" where
  "similarity this request tr =
     makeRequest this POST ''/similarity''
       (JObj [(''text1'', JStr (text1 request)),
              (''text2'', JStr (text2 request)),
              (''model'', js_or (model_val (SimilarityRequest.model request)) (JStr ''e5_base''))])
       None tr"






section \<open>Notions used to state the properties\<close>

subsection \<open>Classification\<close>

text \<open>
  The \<open>k\<close> field of a response body: \<open>undefined\<close> when the body is not an object or has
  no such property.
\<close>

definition body_field :: "jsval \<Rightarrow> string \<Rightarrow> jsval" where
  "body_field d k =
     (case d of JObj kvs \<Rightarrow> (case map_of kvs k of None \<Rightarrow> JUndefined | Some v \<Rightarrow> v)
              | _ \<Rightarrow> JUndefined)"

text \<open>The four transport codes that are classified before the response is looked at.\<close>

definition transport_codes :: "string option set" where
  "transport_codes =
     {Some ''ECONNABORTED'', Some ''ETIMEDOUT'', Some ''ENOTFOUND'', Some ''ECONNREFUSED''}"

text \<open>
  The message policy: the body's \<open>message\<close> field when it is truthy, else its \<open>error\<close>
  field when that is truthy, else the literal.
\<close>

definition preferred_message :: "jsval \<Rightarrow> jsval" where
  "preferred_message d =
     (if truthy (body_field d ''message'') then body_field d ''message''
      else if truthy (body_field d ''error'') then body_field d ''error''
      else JStr ''Unknown error'')"

text \<open>The status table of the specification, and its first-match precedence.\<close>

definition status_table :: "(int \<times> error_class) list" where
  "status_table =
     [(401, AuthenticationErrorC), (402, QuotaExceededErrorC), (400, ValidationErrorC),
      (429, RateLimitErrorC), (500, ServerErrorC), (502, ServerErrorC),
      (503, ServerErrorC), (504, ServerErrorC)]"

definition kind_by_precedence :: "AxiosError \<Rightarrow> error_class" where
  "kind_by_precedence f =
     (if AxiosError.code f \<in> {Some ''ECONNABORTED'', Some ''ETIMEDOUT''} then TimeoutErrorC
      else if AxiosError.code f \<in> {Some ''ENOTFOUND'', Some ''ECONNREFUSED''} then NetworkErrorC
      else case AxiosError.response f of
             None \<Rightarrow> NetworkErrorC
           | Some r \<Rightarrow> (case map_of status_table (AxiosResponse.status r) of
                          Some k \<Rightarrow> k
                        | None \<Rightarrow> HashubVectorErrorC))"

text \<open>
  The instances of the seven subclasses: each class fixes the name, the code and the
  status; the message is the converted argument.
\<close>

fun class_name :: "error_class \<Rightarrow> string" where
  "class_name HashubVectorErrorC = ''HashubVectorError''"
| "class_name AuthenticationErrorC = ''AuthenticationError''"
| "class_name RateLimitErrorC = ''RateLimitError''"
| "class_name QuotaExceededErrorC = ''QuotaExceededError''"
| "class_name ValidationErrorC = ''ValidationError''"
| "class_name ServerErrorC = ''ServerError''"
| "class_name NetworkErrorC = ''NetworkError''"
| "class_name TimeoutErrorC = ''TimeoutError''"

fun class_code :: "error_class \<Rightarrow> string option" where
  "class_code HashubVectorErrorC = None"
| "class_code AuthenticationErrorC = Some ''AUTHENTICATION_ERROR''"
| "class_code RateLimitErrorC = Some ''RATE_LIMIT_ERROR''"
| "class_code QuotaExceededErrorC = Some ''QUOTA_EXCEEDED_ERROR''"
| "class_code ValidationErrorC = Some ''VALIDATION_ERROR''"
| "class_code ServerErrorC = Some ''SERVER_ERROR''"
| "class_code NetworkErrorC = Some ''NETWORK_ERROR''"
| "class_code TimeoutErrorC = Some ''TIMEOUT_ERROR''"

fun class_status :: "error_class \<Rightarrow> int option" where
  "class_status AuthenticationErrorC = Some 401"
| "class_status RateLimitErrorC = Some 429"
| "class_status QuotaExceededErrorC = Some 402"
| "class_status ValidationErrorC = Some 400"
| "class_status ServerErrorC = Some 500"
| "class_status c = None"

definition sdk_error :: "error_class \<Rightarrow> string \<Rightarrow> HashubVectorError" where
  "sdk_error c m =
     \<lparr>cls = c, name = class_name c, message = m, code = class_code c,
      status = class_status c, details = JUndefined, retryAfter = None\<rparr>"

text \<open>The unclassified error: code \<open>API_ERROR\<close>, the raw status and the body.\<close>

definition api_error :: "string \<Rightarrow> int \<Rightarrow> jsval \<Rightarrow> HashubVectorError" where
  "api_error m s d =
     \<lparr>cls = HashubVectorErrorC, name = ''HashubVectorError'', message = m,
      code = Some ''API_ERROR'', status = Some s, details = d, retryAfter = None\<rparr>"

text \<open>The \<open>retryAfter\<close> that a \<open>retry-after\<close> header gives.\<close>

definition retry_after_of :: "string option \<Rightarrow> jsint option" where
  "retry_after_of h =
     (case h of None \<Rightarrow> None | Some v \<Rightarrow> if v = [] then None else Some (parseInt v))"

text \<open>
  The error for a response, given the string its message converts to: the class by the
  status table, the unclassified error for a status the table lacks.
\<close>

definition http_error :: "AxiosResponse \<Rightarrow> string \<Rightarrow> HashubVectorError" where
  "http_error r m =
     (case map_of status_table (AxiosResponse.status r) of
        None \<Rightarrow> api_error m (AxiosResponse.status r) (AxiosResponse.data r)
      | Some c \<Rightarrow>
          if c = RateLimitErrorC
          then (sdk_error c m)\<lparr>retryAfter := retry_after_of (AxiosResponse.headers r ''retry-after'')\<rparr>
          else sdk_error c m)"

text \<open>Header values made of decimal digits only, and the number they denote.\<close>

definition is_decimal_digit :: "char \<Rightarrow> bool" where
  "is_decimal_digit c = (48 \<le> (of_char c :: nat) \<and> (of_char c :: nat) \<le> 57)"

fun decimal_value :: "string \<Rightarrow> nat" where
  "decimal_value [] = 0"
| "decimal_value (c # cs) = (of_char c - 48) * 10 ^ length cs + decimal_value cs"

subsection \<open>The retry loop\<close>

text \<open>An attempt after which the loop goes on: a rejection that is not thrown at once.\<close>

definition will_retry :: "'a outcome \<Rightarrow> bool" where
  "will_retry out =
     (case out of Resolved d \<Rightarrow> False | Rejected f \<Rightarrow> \<not> is_client_error (intercept f))"

text \<open>What a call ends with when a given attempt is its last one.\<close>

definition settle :: "'a outcome \<Rightarrow> thrown + 'a" where
  "settle out = (case out of Resolved d \<Rightarrow> Inr d | Rejected f \<Rightarrow> Inl (intercept f))"

text \<open>
  The effects of attempts \<open>a\<close> to \<open>k\<close>: every attempt before the last is followed by a
  wait of \<open>2 ^ i * 1000\<close> ms, the last attempt by nothing.
\<close>

definition attempts_trace :: "AxiosInstance \<Rightarrow> Request \<Rightarrow> nat \<Rightarrow> nat \<Rightarrow> event list" where
  "attempts_trace c req a k =
     concat (map (\<lambda>i. [HttpRequest c req, Sleep (2 ^ i * 1000)]) [a..<k]) @ [HttpRequest c req]"

text \<open>The request object that \<open>makeRequest\<close> builds from its arguments.\<close>

definition the_request ::
  "http_method \<Rightarrow> string \<Rightarrow> jsval \<Rightarrow> AxiosRequestConfig option \<Rightarrow> Request" where
  "the_request m endpoint d cfg =
     \<lparr>method = m, url = endpoint, data = d,
      params = (case cfg of None \<Rightarrow> None | Some c \<Rightarrow> Some (AxiosRequestConfig.params c))\<rparr>"

text \<open>
  The errors that the loop retries: the four transient classes, and a plain
  \<open>HashubVectorError\<close> whose status is not a 4xx one.
\<close>

definition retryable_error :: "HashubVectorError \<Rightarrow> bool" where
  "retryable_error e =
     (cls e \<in> {RateLimitErrorC, ServerErrorC, NetworkErrorC, TimeoutErrorC} \<or>
      (cls e = HashubVectorErrorC \<and>
       (case HashubVectorError.status e of None \<Rightarrow> True | Some s \<Rightarrow> s < 400 \<or> 500 \<le> s)))"

text \<open>An attempt that is rejected with a failure classified as a retryable error.\<close>

definition fails_retryably :: "'a outcome \<Rightarrow> bool" where
  "fails_retryably out =
     (case out of
        Resolved d \<Rightarrow> False
      | Rejected f \<Rightarrow> (case handleError f of Inl x \<Rightarrow> False | Inr e \<Rightarrow> retryable_error e))"

text \<open>The requests of a trace, each with the client instance it was issued through.\<close>

fun issued :: "event list \<Rightarrow> (AxiosInstance \<times> Request) list" where
  "issued [] = []"
| "issued (HttpRequest c r # evs) = (c, r) # issued evs"
| "issued (Sleep n # evs) = issued evs"


subsection \<open>Concrete inputs\<close>

text \<open>A configuration that sets only \<open>apiKey\<close>.\<close>

definition config_of_key :: "string \<Rightarrow> HashubVectorConfig" where
  "config_of_key k =
     \<lparr>HashubVectorConfig.apiKey = k, baseUrl = None, timeout = None, maxRetries = None,
      headers = None\<rparr>"

text \<open>A configuration that sets \<open>apiKey\<close> and one custom header.\<close>

definition custom_header_config :: "string \<Rightarrow> string \<Rightarrow> string \<Rightarrow> HashubVectorConfig" where
  "custom_header_config k h v = (config_of_key k)\<lparr>HashubVectorConfig.headers := Some [(h, v)]\<rparr>"

text \<open>A configuration that sets \<open>apiKey\<close> and \<open>maxRetries\<close>.\<close>

definition attempts_config :: "string \<Rightarrow> int \<Rightarrow> HashubVectorConfig" where
  "attempts_config k n = (config_of_key k)\<lparr>HashubVectorConfig.maxRetries := Some n\<rparr>"

text \<open>Response headers: none, and a single one.\<close>

definition no_headers :: "string \<rightharpoonup> string" where
  "no_headers = Map.empty"

definition one_header :: "string \<Rightarrow> string \<Rightarrow> (string \<rightharpoonup> string)" where
  "one_header k v = [k \<mapsto> v]"

text \<open>A failure that carries an HTTP response and no transport code.\<close>

definition http_failure :: "int \<Rightarrow> jsval \<Rightarrow> (string \<rightharpoonup> string) \<Rightarrow> AxiosError" where
  "http_failure s d h =
     \<lparr>AxiosError.code = None, message = None,
      response = Some \<lparr>AxiosResponse.status = s, data = d, headers = h\<rparr>\<rparr>"

text \<open>
  The body \<open>{"message": {"toString": null}}\<close>: its \<open>message\<close> is truthy and has no
  string form.
\<close>

definition unprintable_body :: jsval where
  "unprintable_body = JObj [(''message'', JObj [(''toString'', JNull)])]"

text \<open>A transport on which every attempt is rejected with the same failure.\<close>

definition always_rejects :: "AxiosError \<Rightarrow> nat \<Rightarrow> 'a outcome" where
  "always_rejects f i = Rejected f"

text \<open>A transport on which every attempt resolves with the same body.\<close>

definition always_resolves :: "'a \<Rightarrow> nat \<Rightarrow> 'a outcome" where
  "always_resolves d i = Resolved d"

text \<open>A transport that rejects the first \<open>n\<close> attempts and resolves from then on.\<close>

definition rejects_then_resolves :: "AxiosError \<Rightarrow> nat \<Rightarrow> 'a \<Rightarrow> nat \<Rightarrow> 'a outcome" where
  "rejects_then_resolves f n x i = (if i < n then Rejected f else Resolved x)"

section \<open>Properties of the classifier\<close>

lemma opt_chain_body_field: "opt_chain d k = Inr (body_field d k)"
  by (cases d) (simp_all add: opt_chain_def body_field_def)

lemma extract_message_value: "extract_message d = Inr (preferred_message d)"
  by (simp add: extract_message_def opt_chain_body_field js_or_def preferred_message_def)

lemma preferred_message_truthy: "truthy (preferred_message d)"
  by (simp add: preferred_message_def)

lemma truthy_defined: "truthy m \<Longrightarrow> m \<noteq> JUndefined"
  by (cases m) simp_all

lemma default_arg_truthy: "truthy m \<Longrightarrow> default_arg m d = m"
  by (simp add: default_arg_def truthy_defined)

lemma error_message_truthy: "truthy m \<Longrightarrow> error_message m = js_to_string m"
  by (simp add: error_message_def truthy_defined)

lemma new_base_truthy:
  "truthy m \<Longrightarrow>
   new_HashubVectorError m (Some ''API_ERROR'') (Some s) d =
     (case js_to_string m of Inl x \<Rightarrow> Inl x | Inr t \<Rightarrow> Inr (api_error t s d))"
  by (simp add: new_HashubVectorError_def error_message_truthy api_error_def split: sum.splits)

lemma new_subclass_truthy:
  assumes "truthy m"
  shows
    "new_AuthenticationError m =
       (case js_to_string m of Inl x \<Rightarrow> Inl x | Inr t \<Rightarrow> Inr (sdk_error AuthenticationErrorC t))"
    "new_QuotaExceededError m =
       (case js_to_string m of Inl x \<Rightarrow> Inl x | Inr t \<Rightarrow> Inr (sdk_error QuotaExceededErrorC t))"
    "new_ValidationError m =
       (case js_to_string m of Inl x \<Rightarrow> Inl x | Inr t \<Rightarrow> Inr (sdk_error ValidationErrorC t))"
    "new_ServerError m =
       (case js_to_string m of Inl x \<Rightarrow> Inl x | Inr t \<Rightarrow> Inr (sdk_error ServerErrorC t))"
    "new_NetworkError m =
       (case js_to_string m of Inl x \<Rightarrow> Inl x | Inr t \<Rightarrow> Inr (sdk_error NetworkErrorC t))"
    "new_TimeoutError m =
       (case js_to_string m of Inl x \<Rightarrow> Inl x | Inr t \<Rightarrow> Inr (sdk_error TimeoutErrorC t))"
    "new_RateLimitError m ra =
       (case js_to_string m of
          Inl x \<Rightarrow> Inl x
        | Inr t \<Rightarrow> Inr ((sdk_error RateLimitErrorC t)\<lparr>retryAfter := ra\<rparr>))"
  using assms
  by (simp_all add: new_AuthenticationError_def new_QuotaExceededError_def
      new_ValidationError_def new_ServerError_def new_NetworkError_def new_TimeoutError_def
      new_RateLimitError_def new_HashubVectorError_def default_arg_truthy error_message_truthy
      sdk_error_def split: sum.splits)

lemma handleError_timeout:
  "AxiosError.code f \<in> {Some ''ECONNABORTED'', Some ''ETIMEDOUT''} \<Longrightarrow>
   handleError f = Inr (sdk_error TimeoutErrorC ''Request timeout'')"
  by (auto simp: handleError_def new_subclass_truthy)

lemma handleError_network_code:
  "AxiosError.code f \<notin> {Some ''ECONNABORTED'', Some ''ETIMEDOUT''} \<Longrightarrow>
   AxiosError.code f \<in> {Some ''ENOTFOUND'', Some ''ECONNREFUSED''} \<Longrightarrow>
   handleError f = Inr (sdk_error NetworkErrorC ''Network connection error'')"
  by (auto simp: handleError_def new_subclass_truthy)

lemma handleError_no_response:
  "AxiosError.code f \<notin> transport_codes \<Longrightarrow> AxiosError.response f = None \<Longrightarrow>
   handleError f =
     Inr (sdk_error NetworkErrorC
            (case AxiosError.message f of
               None \<Rightarrow> ''Network error''
             | Some s \<Rightarrow> if s = [] then ''Network error'' else s))"
  by (cases "AxiosError.message f")
     (simp_all add: handleError_def transport_codes_def message_val_def js_or_def
        new_subclass_truthy)

lemma status_table_cases:
  "map_of status_table s =
     (if s = 401 then Some AuthenticationErrorC
      else if s = 402 then Some QuotaExceededErrorC
      else if s = 400 then Some ValidationErrorC
      else if s = 429 then Some RateLimitErrorC
      else if s \<in> {500, 502, 503, 504} then Some ServerErrorC
      else None)"
  by (simp add: status_table_def)

lemma handleError_http:
  "AxiosError.code f \<notin> transport_codes \<Longrightarrow> AxiosError.response f = Some r \<Longrightarrow>
   handleError f =
     (case js_to_string (preferred_message (AxiosResponse.data r)) of
        Inl x \<Rightarrow> Inl x
      | Inr m \<Rightarrow> Inr (http_error r m))"
  by (simp add: handleError_def transport_codes_def extract_message_value
      new_subclass_truthy new_base_truthy preferred_message_truthy http_error_def
      status_table_cases retry_after_of_def Let_def
      split: sum.splits option.splits)

lemma js_to_string_exception: "js_to_string m = Inl x \<Longrightarrow> x = TypeError"
  by (cases x) simp

lemma sdk_error_fields [simp]:
  "cls (sdk_error c m) = c"
  "HashubVectorError.message (sdk_error c m) = m"
  "HashubVectorError.status (sdk_error c m) = class_status c"
  "HashubVectorError.code (sdk_error c m) = class_code c"
  "details (sdk_error c m) = JUndefined"
  "retryAfter (sdk_error c m) = None"
  by (simp_all add: sdk_error_def)

lemma api_error_fields [simp]:
  "cls (api_error m s d) = HashubVectorErrorC"
  "HashubVectorError.message (api_error m s d) = m"
  "HashubVectorError.status (api_error m s d) = Some s"
  "HashubVectorError.code (api_error m s d) = Some ''API_ERROR''"
  "details (api_error m s d) = d"
  "retryAfter (api_error m s d) = None"
  by (simp_all add: api_error_def)

lemma table_classes:
  "map_of status_table s = Some c \<Longrightarrow>
   c \<in> {AuthenticationErrorC, QuotaExceededErrorC, ValidationErrorC, RateLimitErrorC, ServerErrorC}"
  by (simp add: status_table_cases split: if_splits)

lemma http_error_cls:
  "cls (http_error r m) =
     (case map_of status_table (AxiosResponse.status r) of
        None \<Rightarrow> HashubVectorErrorC
      | Some c \<Rightarrow> c)"
  by (simp add: http_error_def split: option.splits)

lemma http_error_message [simp]: "HashubVectorError.message (http_error r m) = m"
  by (simp add: http_error_def split: option.splits)

lemma http_error_status:
  "HashubVectorError.status (http_error r m) =
     (case map_of status_table (AxiosResponse.status r) of
        None \<Rightarrow> Some (AxiosResponse.status r)
      | Some c \<Rightarrow> class_status c)"
  by (simp add: http_error_def split: option.splits)

lemma http_error_retryAfter:
  "AxiosResponse.status r = 429 \<Longrightarrow>
   retryAfter (http_error r m) = retry_after_of (AxiosResponse.headers r ''retry-after'')"
  by (simp add: http_error_def status_table_cases)

lemma http_error_unlisted:
  "map_of status_table (AxiosResponse.status r) = None \<Longrightarrow>
   http_error r m = api_error m (AxiosResponse.status r) (AxiosResponse.data r)"
  by (simp add: http_error_def)

text \<open>The four ways a failure is classified.\<close>

lemma failure_cases:
  obtains
    (timeout) "AxiosError.code f \<in> {Some ''ECONNABORTED'', Some ''ETIMEDOUT''}"
  | (network) "AxiosError.code f \<notin> {Some ''ECONNABORTED'', Some ''ETIMEDOUT''}"
      "AxiosError.code f \<in> {Some ''ENOTFOUND'', Some ''ECONNREFUSED''}"
  | (no_response) "AxiosError.code f \<notin> transport_codes" "AxiosError.response f = None"
  | (http) r where "AxiosError.code f \<notin> transport_codes" "AxiosError.response f = Some r"
  by (cases "AxiosError.response f") (auto simp: transport_codes_def)

lemma handleError_http_Inr:
  assumes "AxiosError.code f \<notin> transport_codes" and "AxiosError.response f = Some r"
    and "handleError f = Inr e"
  shows "\<exists>m. js_to_string (preferred_message (AxiosResponse.data r)) = Inr m \<and> e = http_error r m"
proof (cases "js_to_string (preferred_message (AxiosResponse.data r))")
  case (Inl x)
  with assms show ?thesis by (simp add: handleError_http)
next
  case (Inr m)
  with assms show ?thesis by (simp add: handleError_http)
qed

lemma handleError_Inl:
  assumes "handleError f = Inl x"
  shows "x = TypeError \<and>
         (\<exists>r. AxiosError.code f \<notin> transport_codes \<and> AxiosError.response f = Some r \<and>
              js_to_string (preferred_message (AxiosResponse.data r)) = Inl TypeError)"
proof (cases f rule: failure_cases)
  case timeout
  with assms handleError_timeout [OF timeout] show ?thesis by simp
next
  case network
  with assms handleError_network_code [OF network] show ?thesis by simp
next
  case no_response
  with assms handleError_no_response [OF no_response] show ?thesis by simp
next
  case (http r)
  have "x = TypeError" by (cases x) simp
  with assms http handleError_http [OF http] show ?thesis
    by (auto split: sum.splits)
qed

lemma handleError_cls:
  assumes "handleError f = Inr e"
  shows "cls e = kind_by_precedence f"
proof (cases f rule: failure_cases)
  case timeout
  with assms handleError_timeout [OF timeout] show ?thesis
    by (auto simp: kind_by_precedence_def)
next
  case network
  with assms handleError_network_code [OF network] show ?thesis
    by (auto simp: kind_by_precedence_def)
next
  case no_response
  with assms handleError_no_response [OF no_response] show ?thesis
    by (auto simp: kind_by_precedence_def transport_codes_def)
next
  case (http r)
  from handleError_http_Inr [OF http assms] obtain m where "e = http_error r m" by blast
  with http show ?thesis
    by (auto simp: kind_by_precedence_def transport_codes_def http_error_cls)
qed

lemma handleError_shape:
  assumes "handleError f = Inr e"
  shows "(cls e \<noteq> HashubVectorErrorC \<and> HashubVectorError.status e = class_status (cls e)) \<or>
         (cls e = HashubVectorErrorC \<and>
            (\<exists>s. HashubVectorError.status e = Some s \<and> map_of status_table s = None))"
proof (cases f rule: failure_cases)
  case timeout
  with assms handleError_timeout [OF timeout] show ?thesis by auto
next
  case network
  with assms handleError_network_code [OF network] show ?thesis by auto
next
  case no_response
  with assms handleError_no_response [OF no_response] show ?thesis by auto
next
  case (http r)
  from handleError_http_Inr [OF http assms] obtain m where e: "e = http_error r m" by blast
  show ?thesis
  proof (cases "map_of status_table (AxiosResponse.status r)")
    case None
    with e show ?thesis by (simp add: http_error_unlisted)
  next
    case (Some c)
    with table_classes [OF Some] e show ?thesis
      by (auto simp: http_error_cls http_error_status)
  qed
qed

lemma retryable_not_client_error:
  assumes "handleError f = Inr e" and "retryable_error e"
  shows "\<not> is_client_error (intercept f)"
proof -
  from handleError_shape [OF assms(1)] assms(2) show ?thesis
    by (auto simp: retryable_error_def is_client_error_def intercept_def assms(1))
qed

lemma terminal_is_client_error:
  assumes "handleError f = Inr e"
    and "cls e \<in> {AuthenticationErrorC, QuotaExceededErrorC, ValidationErrorC}"
  shows "is_client_error (intercept f)"
proof -
  from handleError_shape [OF assms(1)] assms(2) show ?thesis
    by (auto simp: is_client_error_def intercept_def assms(1))
qed

lemma status_4xx_is_client_error:
  assumes "handleError f = Inr e" and "cls e = HashubVectorErrorC"
    and "HashubVectorError.status e = Some s" and "400 \<le> s" and "s < 500"
  shows "is_client_error (intercept f)"
proof -
  from handleError_shape [OF assms(1)] assms(2,3) have "map_of status_table s = None"
    by auto
  then have "s \<noteq> 429" by (auto simp: status_table_def)
  with assms show ?thesis
    by (simp add: is_client_error_def intercept_def)
qed

lemma exception_not_client_error:
  "handleError f = Inl x \<Longrightarrow> \<not> is_client_error (intercept f)"
  by (simp add: is_client_error_def intercept_def)

subsection \<open>parseInt on digits\<close>

lemma digit_value_decimal:
  "is_decimal_digit c \<Longrightarrow> digit_value c = Some (of_char c - 48)"
  by (simp add: is_decimal_digit_def digit_value_def Let_def)

lemma decimal_is_radix_digit: "is_decimal_digit c \<Longrightarrow> is_radix_digit 10 c"
  by (auto simp: is_radix_digit_def digit_value_decimal is_decimal_digit_def)

lemma foldl_decimal:
  "\<forall>c\<in>set Z. is_decimal_digit c \<Longrightarrow>
   foldl (\<lambda>a c. a * 10 + (case digit_value c of None \<Rightarrow> 0 | Some d \<Rightarrow> d)) a0 Z =
     a0 * 10 ^ length Z + decimal_value Z"
  by (induction Z arbitrary: a0) (simp_all add: digit_value_decimal algebra_simps)

lemma radix_value_decimal:
  "\<forall>c\<in>set Z. is_decimal_digit c \<Longrightarrow> radix_value 10 Z = decimal_value Z"
  by (simp add: radix_value_def foldl_decimal)

lemma decimal_digit_facts:
  assumes "is_decimal_digit c"
  shows "\<not> is_white_space c" "c \<noteq> CHR ''-''" "c \<noteq> CHR ''+''" "c \<noteq> CHR ''x''" "c \<noteq> CHR ''X''"
  using assms by (auto simp: is_decimal_digit_def is_white_space_def)

lemma parseInt_digits:
  assumes "h \<noteq> []" and "\<forall>c\<in>set h. is_decimal_digit c"
  shows "parseInt h = number_of_int (int (decimal_value h))"
proof -
  from assms obtain c cs where h: "h = c # cs" by (cases h) auto
  with assms have c: "is_decimal_digit c" by simp
  have ws: "dropWhile is_white_space h = h"
    using h decimal_digit_facts(1) [OF c] by simp
  have nohex: "take 2 h \<noteq> ''0x''" "take 2 h \<noteq> ''0X''"
  proof -
    show "take 2 h \<noteq> ''0x''"
    proof
      assume "take 2 h = ''0x''"
      then have "CHR ''x'' \<in> set (take 2 h)" by simp
      then have "CHR ''x'' \<in> set h" by (rule in_set_takeD)
      with assms(2) decimal_digit_facts(4) show False by blast
    qed
    show "take 2 h \<noteq> ''0X''"
    proof
      assume "take 2 h = ''0X''"
      then have "CHR ''X'' \<in> set (take 2 h)" by simp
      then have "CHR ''X'' \<in> set h" by (rule in_set_takeD)
      with assms(2) decimal_digit_facts(5) show False by blast
    qed
  qed
  have tw: "takeWhile (is_radix_digit 10) h = h"
    using assms(2) by (simp add: takeWhile_eq_all_conv decimal_is_radix_digit)
  have hd: "hd h \<noteq> CHR ''-''" "hd h \<noteq> CHR ''+''"
    using h decimal_digit_facts(2,3) [OF c] by simp_all
  show ?thesis
    unfolding parseInt_def ws Let_def
    using assms(1) hd nohex by (simp add: tw radix_value_decimal [OF assms(2)])
qed

lemma radix_digit_decimal: "is_radix_digit 10 c = is_decimal_digit c"
  by (auto simp: is_radix_digit_def digit_value_def is_decimal_digit_def Let_def)

lemma parseInt_no_number:
  assumes "h = c # cs" and "\<not> is_white_space c" and "c \<noteq> CHR ''+''" and "c \<noteq> CHR ''-''"
    and "\<not> is_decimal_digit c"
  shows "parseInt h = NaN"
proof -
  have ne: "h \<noteq> []" using assms(1) by simp
  have ws: "dropWhile is_white_space h = h" using assms(1,2) by simp
  have hd: "hd h \<noteq> CHR ''-''" "hd h \<noteq> CHR ''+''" using assms(1,3,4) by simp_all
  have "c \<noteq> CHR ''0''" using assms(5) by (auto simp: is_decimal_digit_def)
  then have nohex: "take 2 h \<noteq> ''0x''" "take 2 h \<noteq> ''0X''"
    using assms(1) by auto
  have tw: "takeWhile (is_radix_digit 10) h = []"
    using assms(1,5) by (simp add: radix_digit_decimal)
  show ?thesis
    unfolding parseInt_def ws Let_def
    using ne hd nohex by (simp add: tw)
qed

lemma retry_after_of_digits:
  assumes "h \<noteq> []" and "\<forall>c\<in>set h. is_decimal_digit c" and "int (decimal_value h) \<le> 2 ^ 53"
  shows "retry_after_of (Some h) = Some (Num (int (decimal_value h)))"
  using assms by (simp add: retry_after_of_def parseInt_digits number_of_int_def)

section \<open>Properties of the retry loop\<close>

declare makeRequest_loop.simps [simp del]

lemma loop_exhausted:
  "\<not> int a < RequiredConfig.maxRetries (config this) \<Longrightarrow>
   makeRequest_loop this req tr a le = ([], Inl le)"
  by (subst makeRequest_loop.simps) simp

lemma loop_resolved:
  "int a < RequiredConfig.maxRetries (config this) \<Longrightarrow> tr a = Resolved d \<Longrightarrow>
   makeRequest_loop this req tr a le = ([HttpRequest (client this) req], Inr d)"
  by (subst makeRequest_loop.simps) simp

lemma loop_client_error:
  "int a < RequiredConfig.maxRetries (config this) \<Longrightarrow> tr a = Rejected f \<Longrightarrow>
   is_client_error (intercept f) \<Longrightarrow>
   makeRequest_loop this req tr a le = ([HttpRequest (client this) req], Inl (intercept f))"
  by (subst makeRequest_loop.simps) simp

lemma loop_retry:
  "int a < RequiredConfig.maxRetries (config this) \<Longrightarrow> tr a = Rejected f \<Longrightarrow>
   \<not> is_client_error (intercept f) \<Longrightarrow>
   makeRequest_loop this req tr a le =
     (HttpRequest (client this) req #
        (if int a < RequiredConfig.maxRetries (config this) - 1 then [Sleep (backoff_delay a)] else [])
        @ fst (makeRequest_loop this req tr (Suc a) (intercept f)),
      snd (makeRequest_loop this req tr (Suc a) (intercept f)))"
  by (subst makeRequest_loop.simps) (simp add: Let_def)

lemma attempts_trace_same: "attempts_trace c req a a = [HttpRequest c req]"
  by (simp add: attempts_trace_def)

lemma attempts_trace_step:
  "a < k \<Longrightarrow> attempts_trace c req a k =
     HttpRequest c req # Sleep (2 ^ a * 1000) # attempts_trace c req (Suc a) k"
  by (simp add: attempts_trace_def upt_conv_Cons)

lemma loop_char:
  assumes "a \<le> k" and "int k < RequiredConfig.maxRetries (config this)"
    and "\<forall>i. a \<le> i \<and> i < k \<longrightarrow> will_retry (tr i)"
    and "\<not> will_retry (tr k) \<or> int k = RequiredConfig.maxRetries (config this) - 1"
  shows "makeRequest_loop this req tr a le = (attempts_trace (client this) req a k, settle (tr k))"
  using assms
proof (induction "k - a" arbitrary: a le)
  case 0
  then have ak: "a = k" by simp
  show ?case
  proof (cases "tr k")
    case (Resolved d)
    with 0 ak show ?thesis
      by (simp add: loop_resolved attempts_trace_same settle_def)
  next
    case (Rejected f)
    show ?thesis
    proof (cases "is_client_error (intercept f)")
      case True
      with 0 ak Rejected show ?thesis
        by (simp add: loop_client_error attempts_trace_same settle_def)
    next
      case False
      with Rejected have "will_retry (tr k)" by (simp add: will_retry_def)
      with 0 have last: "int k = RequiredConfig.maxRetries (config this) - 1" by blast
      then have "\<not> int (Suc k) < RequiredConfig.maxRetries (config this)" by simp
      then have "makeRequest_loop this req tr (Suc k) (intercept f) = ([], Inl (intercept f))"
        by (rule loop_exhausted)
      with 0 ak Rejected False last show ?thesis
        by (simp add: loop_retry attempts_trace_same settle_def)
    qed
  qed
next
  case (Suc m)
  then have lt: "a < k" by simp
  with Suc have "will_retry (tr a)" by simp
  then obtain f where f: "tr a = Rejected f" "\<not> is_client_error (intercept f)"
    by (auto simp: will_retry_def split: outcome.splits)
  have a_lt: "int a < RequiredConfig.maxRetries (config this) - 1"
    using lt Suc.prems by simp
  have "makeRequest_loop this req tr (Suc a) (intercept f) =
          (attempts_trace (client this) req (Suc a) k, settle (tr k))"
    using Suc lt by (intro Suc.hyps) auto
  with f a_lt lt show ?case
    by (simp add: loop_retry attempts_trace_step backoff_delay_def)
qed

lemma final_attempt_exists:
  assumes "1 \<le> RequiredConfig.maxRetries (config this)"
  shows "\<exists>k. int k < RequiredConfig.maxRetries (config this) \<and>
             (\<forall>i<k. will_retry (tr i)) \<and>
             (\<not> will_retry (tr k) \<or> int k = RequiredConfig.maxRetries (config this) - 1)"
proof -
  let ?P = "\<lambda>i. \<not> will_retry (tr i) \<or> int i = RequiredConfig.maxRetries (config this) - 1"
  let ?n = "nat (RequiredConfig.maxRetries (config this) - 1)"
  have P: "?P ?n" using assms by simp
  define k where "k = (LEAST i. ?P i)"
  have "?P k" unfolding k_def using P by (rule LeastI)
  moreover have "k \<le> ?n" unfolding k_def using P by (rule Least_le)
  moreover have "\<forall>i<k. will_retry (tr i)"
    using not_less_Least [of _ ?P] unfolding k_def by blast
  ultimately show ?thesis using assms by (intro exI [of _ k]) auto
qed

lemma makeRequest_char:
  assumes "int k < RequiredConfig.maxRetries (config this)"
    and "\<forall>i<k. will_retry (tr i)"
    and "\<not> will_retry (tr k) \<or> int k = RequiredConfig.maxRetries (config this) - 1"
  shows "makeRequest this m ep d cfg tr =
           (attempts_trace (client this) (the_request m ep d cfg) 0 k, settle (tr k))"
  unfolding makeRequest_def the_request_def
  using assms by (intro loop_char) auto

lemma issued_append: "issued (xs @ ys) = issued xs @ issued ys"
  by (induction xs rule: issued.induct) simp_all

lemma issued_attempts_trace:
  "a \<le> k \<Longrightarrow> issued (attempts_trace c req a k) = replicate (Suc (k - a)) (c, req)"
proof (induction "k - a" arbitrary: a)
  case 0
  then show ?case by (simp add: attempts_trace_same)
next
  case (Suc n)
  then have lt: "a < k" by simp
  from Suc have "issued (attempts_trace c req (Suc a) k) = replicate (Suc (k - Suc a)) (c, req)"
    by (intro Suc.hyps) auto
  with lt show ?case
    by (simp add: attempts_trace_step Suc_diff_Suc)
qed

lemma makeRequest_issued:
  "\<exists>n. issued (fst (makeRequest this m ep d cfg tr)) =
         replicate n (client this, the_request m ep d cfg) \<and>
       (1 \<le> RequiredConfig.maxRetries (config this) \<longrightarrow> 0 < n)"
proof (cases "1 \<le> RequiredConfig.maxRetries (config this)")
  case True
  from final_attempt_exists [OF True, of tr] obtain k where
    k: "int k < RequiredConfig.maxRetries (config this)" "\<forall>i<k. will_retry (tr i)"
       "\<not> will_retry (tr k) \<or> int k = RequiredConfig.maxRetries (config this) - 1"
    by blast
  have "issued (fst (makeRequest this m ep d cfg tr)) =
          replicate (Suc k) (client this, the_request m ep d cfg)"
    using makeRequest_char [OF k] by (simp add: issued_attempts_trace)
  then show ?thesis by blast
next
  case False
  then have "makeRequest this m ep d cfg tr = ([], Inl ThrownUndefined)"
    by (simp add: makeRequest_def loop_exhausted)
  with False show ?thesis by simp
qed


lemma makeRequest_requests:
  "1 \<le> RequiredConfig.maxRetries (config this) \<Longrightarrow>
   set (map snd (issued (fst (makeRequest this m ep d cfg tr)))) = {the_request m ep d cfg}"
  using makeRequest_issued [of this m ep d cfg tr] by auto

subsection \<open>Headers\<close>






subsection \<open>Request bodies and concrete runs\<close>

lemma model_string_nonempty: "model_string m \<noteq> []"
  by (cases m) simp_all

lemma default_model:
  "js_or (model_val m) (JStr ''e5_base'') =
     JStr (case m of None \<Rightarrow> ''e5_base'' | Some x \<Rightarrow> model_string x)"
  by (cases m) (simp_all add: js_or_def model_val_def model_string_nonempty)


lemma maxRetries_config_of_key [simp]:
  "RequiredConfig.maxRetries (config (new_HashubVector (config_of_key k))) = 3"
  by (simp add: new_HashubVector_def stored_config_def config_of_key_def
      spread_over_def Let_def)

lemma maxRetries_custom_header_config [simp]:
  "RequiredConfig.maxRetries (config (new_HashubVector (custom_header_config k h v))) = 3"
  by (simp add: new_HashubVector_def stored_config_def custom_header_config_def config_of_key_def
      spread_over_def Let_def)

lemma maxRetries_attempts_config [simp]:
  "RequiredConfig.maxRetries (config (new_HashubVector (attempts_config k n))) = n"
  by (simp add: new_HashubVector_def stored_config_def attempts_config_def config_of_key_def
      spread_over_def Let_def)

lemma fails_retryably_will_retry: "fails_retryably out \<Longrightarrow> will_retry out"
  by (auto simp: fails_retryably_def will_retry_def retryable_not_client_error
      split: outcome.splits sum.splits)

lemma fails_retryably_settle:
  "fails_retryably out \<Longrightarrow>
   \<exists>f e. out = Rejected f \<and> handleError f = Inr e \<and> retryable_error e \<and>
         settle out = Inl (ThrownError e)"
  by (auto simp: fails_retryably_def settle_def intercept_def split: outcome.splits sum.splits)

lemma settle_rejected:
  "handleError f = Inr e \<Longrightarrow> settle (Rejected f) = Inl (ThrownError e)"
  by (simp add: settle_def intercept_def)

lemma handleError_http_failure:
  "handleError (http_failure s d h) =
     (case js_to_string (preferred_message d) of
        Inl x \<Rightarrow> Inl x
      | Inr m \<Rightarrow> Inr (http_error \<lparr>AxiosResponse.status = s, data = d, headers = h\<rparr> m))"
  using handleError_http [of "http_failure s d h"
      "\<lparr>AxiosResponse.status = s, data = d, headers = h\<rparr>"]
  by (simp add: http_failure_def transport_codes_def)

lemma preferred_message_no_object [simp]:
  "preferred_message JNull = JStr ''Unknown error''"
  "preferred_message (JStr s) = JStr ''Unknown error''"
  by (simp_all add: preferred_message_def body_field_def)

lemma handleError_unprintable:
  "handleError (http_failure s unprintable_body h) = Inl TypeError"
  by (simp add: handleError_http_failure unprintable_body_def preferred_message_def body_field_def)

lemma handleError_503:
  "handleError (http_failure 503 JNull no_headers) = Inr (sdk_error ServerErrorC ''Unknown error'')"
  by (simp add: handleError_http_failure http_error_def status_table_cases)

lemma fails_retryably_503 [simp]:
  "fails_retryably (Rejected (http_failure 503 JNull no_headers))"
  by (simp add: fails_retryably_def handleError_503 retryable_error_def)

section \<open>The claims about the classifier\<close>

text \<open>
  What \<open>handleError\<close> does on every failure. When it throws an SDK error, the class is
  the one the status table gives by first match, and the unclassified error carries the
  code \<open>API_ERROR\<close>, the raw status and the body. It throws a TypeError instead exactly
  when the failure is classified by its response and the chosen message has no string
  form.
\<close>

lemma handleError_classified:
  assumes "handleError f = Inr e"
  shows "cls e = kind_by_precedence f \<and>
         (kind_by_precedence f = HashubVectorErrorC \<longrightarrow>
            (\<exists>r. AxiosError.response f = Some r \<and>
                 HashubVectorError.code e = Some ''API_ERROR'' \<and>
                 HashubVectorError.status e = Some (AxiosResponse.status r) \<and>
                 details e = AxiosResponse.data r))"
proof (intro conjI impI)
  show k: "cls e = kind_by_precedence f"
    using assms by (rule handleError_cls)
  assume u: "kind_by_precedence f = HashubVectorErrorC"
  show "\<exists>r. AxiosError.response f = Some r \<and>
                 HashubVectorError.code e = Some ''API_ERROR'' \<and>
                 HashubVectorError.status e = Some (AxiosResponse.status r) \<and>
                 details e = AxiosResponse.data r"
  proof (cases f rule: failure_cases)
    case timeout
    with u show ?thesis by (auto simp: kind_by_precedence_def)
  next
    case network
    with u show ?thesis by (auto simp: kind_by_precedence_def)
  next
    case no_response
    with u show ?thesis by (auto simp: kind_by_precedence_def transport_codes_def)
  next
    case (http r)
    from handleError_http_Inr [OF http assms] obtain m where e: "e = http_error r m" by blast
    have "map_of status_table (AxiosResponse.status r) = None"
    proof (cases "map_of status_table (AxiosResponse.status r)")
      case None
      then show ?thesis .
    next
      case (Some c)
      with table_classes [OF Some] k u e show ?thesis
        by (auto simp: http_error_cls)
    qed
    with e http show ?thesis by (simp add: http_error_unlisted)
  qed
qed

lemma handleError_classifies:
  "(\<exists>e. handleError f = Inr e) \<or>
   (handleError f = Inl TypeError \<and>
    (\<exists>r. AxiosError.code f \<notin> transport_codes \<and> AxiosError.response f = Some r \<and>
         js_to_string (preferred_message (AxiosResponse.data r)) = Inl TypeError))"
proof (cases "handleError f")
  case (Inl x)
  from handleError_Inl [OF Inl] Inl show ?thesis by simp
next
  case (Inr e)
  then show ?thesis by blast
qed

text \<open>
  Claim C3. By the precedence of the claim, HTTP 401 is an authentication error. At HTTP
  401 with the body \<open>{"message": {"toString": null}}\<close> \<open>handleError\<close> maps the failure
  to no error class: the \<open>Error\<close> constructor cannot convert the message and throws a
  TypeError.
\<close>

theorem handleError_no_kind:
  "kind_by_precedence (http_failure 401 unprintable_body no_headers) = AuthenticationErrorC \<and>
   handleError (http_failure 401 unprintable_body no_headers) = Inl TypeError"
proof
  show "kind_by_precedence (http_failure 401 unprintable_body no_headers) = AuthenticationErrorC"
    by (simp add: kind_by_precedence_def http_failure_def status_table_def)
  show "handleError (http_failure 401 unprintable_body no_headers) = Inl TypeError"
    by (rule handleError_unprintable)
qed

text \<open>
  Claim C8. \<open>handleError\<close> is not total: at HTTP 500 with the body
  \<open>{"error": {"toString": "boom"}}\<close> it fails with a TypeError and produces no
  classified error.
\<close>

theorem handleError_not_total:
  "handleError (http_failure 500 (JObj [(''error'', JObj [(''toString'', JStr ''boom'')])]) no_headers)
     = Inl TypeError"
  by (simp add: handleError_http_failure preferred_message_def body_field_def)

text \<open>
  Claim C5, as the code has it. For every failure that is classified by its HTTP response
  (none of the four transport codes), take the body's \<open>message\<close> field when that field
  is truthy (for a string: non-empty), else the body's \<open>error\<close> field when that is
  truthy, else the literal \<open>Unknown error\<close>. When this value has a string form, the
  error's message is that string: a string is its own string form, a number has its
  print, a boolean \<open>true\<close> or \<open>false\<close>, and an object, which then has no property
  \<open>toString\<close> of its own, \<open>[object Object]\<close>.
\<close>

theorem message_extraction:
  assumes "AxiosError.code f \<notin> transport_codes"
    and "AxiosError.response f = Some r"
    and "js_to_string (preferred_message (AxiosResponse.data r)) = Inr m"
  shows "\<exists>e. handleError f = Inr e \<and> HashubVectorError.message e = m \<and>
           (\<forall>s. preferred_message (AxiosResponse.data r) = JStr s \<longrightarrow> m = s) \<and>
           (\<forall>n. preferred_message (AxiosResponse.data r) = JNum n \<longrightarrow> m = n) \<and>
           (\<forall>b. preferred_message (AxiosResponse.data r) = JBool b \<longrightarrow>
                  m = (if b then ''true'' else ''false'')) \<and>
           (\<forall>kvs. preferred_message (AxiosResponse.data r) = JObj kvs \<longrightarrow>
                  map_of kvs ''toString'' = None \<and> m = ''[object Object]'')"
  using assms by (auto simp: handleError_http split: option.splits)

text \<open>
  At HTTP 401 with body \<open>{"message": "bad key"}\<close> the result is an
  \<open>AuthenticationError\<close> with message \<open>bad key\<close>.
\<close>

theorem message_extraction_witness:
  "\<exists>e. handleError (http_failure 401 (JObj [(''message'', JStr ''bad key'')]) no_headers) = Inr e \<and>
       cls e = AuthenticationErrorC \<and> HashubVectorError.message e = ''bad key''"
proof -
  let ?d = "JObj [(''message'', JStr ''bad key'')]"
  let ?f = "http_failure 401 ?d no_headers"
  have p: "preferred_message ?d = JStr ''bad key''"
    by (simp add: preferred_message_def body_field_def)
  have "AxiosError.code ?f \<notin> transport_codes"
    and "AxiosError.response ?f = Some \<lparr>AxiosResponse.status = 401, data = ?d, headers = no_headers\<rparr>"
    and "js_to_string (preferred_message
           (AxiosResponse.data \<lparr>AxiosResponse.status = 401, data = ?d, headers = no_headers\<rparr>))
         = Inr ''bad key''"
    by (simp_all add: http_failure_def transport_codes_def p)
  from message_extraction [OF this] obtain e where
    e: "handleError ?f = Inr e" "HashubVectorError.message e = ''bad key''"
    by blast
  from handleError_cls [OF e(1)] have "cls e = AuthenticationErrorC"
    by (simp add: kind_by_precedence_def http_failure_def status_table_def)
  with e show ?thesis by blast
qed

text \<open>
  A \<open>message\<close> field that is present but empty is passed over: with body
  \<open>{"message": "", "error": "boom"}\<close> the error's message is \<open>boom\<close>.
\<close>

theorem empty_message_skipped:
  "body_field (JObj [(''message'', JStr []), (''error'', JStr ''boom'')]) ''message'' = JStr [] \<and>
   handleError (http_failure 401 (JObj [(''message'', JStr []), (''error'', JStr ''boom'')]) no_headers)
     = Inr (sdk_error AuthenticationErrorC ''boom'') \<and>
   HashubVectorError.message (sdk_error AuthenticationErrorC ''boom'') = ''boom''"
  by (simp add: handleError_http_failure preferred_message_def body_field_def http_error_def
      status_table_cases)

text \<open>
  Claim C6, as the code has it. For every failure classified by its HTTP response with
  status 429, whose message has a string form, the result is a \<open>RateLimitError\<close>. Its
  \<open>retryAfter\<close> is absent when the \<open>retry-after\<close> header is absent or empty, and is
  \<open>parseInt\<close> of the header otherwise: the integer that a header made of decimal digits
  denotes, exactly when it is at most \<open>2 ^ 53\<close>, and \<open>NaN\<close> for a header whose first
  character is not a decimal digit, a sign or white space.
\<close>

theorem rate_limit_retry_after:
  assumes "AxiosError.code f \<notin> transport_codes"
    and "AxiosError.response f = Some r"
    and "AxiosResponse.status r = 429"
    and "js_to_string (preferred_message (AxiosResponse.data r)) = Inr m"
  shows "\<exists>e. handleError f = Inr e \<and> cls e = RateLimitErrorC \<and>
           retryAfter e =
             (case AxiosResponse.headers r ''retry-after'' of
                None \<Rightarrow> None
              | Some h \<Rightarrow> if h = [] then None else Some (parseInt h)) \<and>
           (\<forall>h. AxiosResponse.headers r ''retry-after'' = Some h \<and> h \<noteq> [] \<and>
                 (\<forall>c\<in>set h. is_decimal_digit c) \<and> int (decimal_value h) \<le> 2 ^ 53 \<longrightarrow>
                retryAfter e = Some (Num (int (decimal_value h)))) \<and>
           (\<forall>c cs. AxiosResponse.headers r ''retry-after'' = Some (c # cs) \<and>
                 \<not> is_white_space c \<and> c \<noteq> CHR ''+'' \<and> c \<noteq> CHR ''-'' \<and>
                 \<not> is_decimal_digit c \<longrightarrow>
                retryAfter e = Some NaN)"
proof -
  let ?h = "AxiosResponse.headers r ''retry-after''"
  have e: "handleError f = Inr (http_error r m)"
    using assms by (simp add: handleError_http)
  have c: "cls (http_error r m) = RateLimitErrorC"
    using assms(3) by (simp add: http_error_cls status_table_cases)
  have ra: "retryAfter (http_error r m) = retry_after_of ?h"
    using assms(3) by (rule http_error_retryAfter)
  have d: "retry_after_of ?h = Some (Num (int (decimal_value h)))"
    if "?h = Some h" "h \<noteq> []" "\<forall>c\<in>set h. is_decimal_digit c" "int (decimal_value h) \<le> 2 ^ 53"
    for h
    using that by (simp add: retry_after_of_digits)
  have n: "retry_after_of ?h = Some NaN"
    if "?h = Some (c # cs)" "\<not> is_white_space c" "c \<noteq> CHR ''+''" "c \<noteq> CHR ''-''"
       "\<not> is_decimal_digit c" for c cs
    using that parseInt_no_number [of "c # cs" c cs] by (simp add: retry_after_of_def)
  from e c ra d n show ?thesis
    by (auto simp: retry_after_of_def)
qed

text \<open>
  Header \<open>retry-after: 30\<close> gives \<open>retryAfter = 30\<close>; no header gives no \<open>retryAfter\<close>.
\<close>

theorem rate_limit_retry_after_witness:
  "(\<exists>e. handleError (http_failure 429 JNull (one_header ''retry-after'' ''30'')) = Inr e \<and>
        cls e = RateLimitErrorC \<and> retryAfter e = Some (Num 30)) \<and>
   (\<exists>e. handleError (http_failure 429 JNull no_headers) = Inr e \<and>
        cls e = RateLimitErrorC \<and> retryAfter e = None)"
proof
  have d: "\<forall>c\<in>set ''30''. is_decimal_digit c" by (simp add: is_decimal_digit_def)
  have m: "js_to_string (preferred_message JNull) = Inr ''Unknown error''" by simp
  show "\<exists>e. handleError (http_failure 429 JNull (one_header ''retry-after'' ''30'')) = Inr e \<and>
        cls e = RateLimitErrorC \<and> retryAfter e = Some (Num 30)"
    using rate_limit_retry_after [of "http_failure 429 JNull (one_header ''retry-after'' ''30'')"
        "\<lparr>AxiosResponse.status = 429, data = JNull, headers = one_header ''retry-after'' ''30''\<rparr>"
        "''Unknown error''"] d m
    by (auto simp: http_failure_def transport_codes_def one_header_def)
  show "\<exists>e. handleError (http_failure 429 JNull no_headers) = Inr e \<and>
        cls e = RateLimitErrorC \<and> retryAfter e = None"
    using rate_limit_retry_after [of "http_failure 429 JNull no_headers"
        "\<lparr>AxiosResponse.status = 429, data = JNull, headers = no_headers\<rparr>"
        "''Unknown error''"] m
    by (auto simp: http_failure_def transport_codes_def no_headers_def)
qed

text \<open>
  A \<open>retry-after\<close> header holding an HTTP date gives \<open>retryAfter = NaN\<close>, and an empty
  header, although present, gives no \<open>retryAfter\<close>.
\<close>

theorem retry_after_not_integer:
  "(\<exists>e. handleError
          (http_failure 429 JNull (one_header ''retry-after'' ''Wed, 21 Oct 2015 07:28:00 GMT''))
        = Inr e \<and> cls e = RateLimitErrorC \<and> retryAfter e = Some NaN) \<and>
   one_header ''retry-after'' [] ''retry-after'' = Some [] \<and>
   (\<exists>e. handleError (http_failure 429 JNull (one_header ''retry-after'' [])) = Inr e \<and>
        cls e = RateLimitErrorC \<and> retryAfter e = None)"
  by (simp add: handleError_http_failure http_error_def status_table_cases retry_after_of_def
      one_header_def parseInt_def is_white_space_def is_radix_digit_def digit_value_def Let_def)

section \<open>The claims about construction and request shaping\<close>

text \<open>
  Claim C7. A client constructed from a configuration that sets only \<open>apiKey\<close> stores the
  defaults: base URL \<open>https://api.vector.hashub.dev\<close>, timeout 30000, maxRetries 3 and
  no extra headers. A field that the configuration supplies is stored instead of its
  default, and \<open>apiKey\<close> is stored as given.
\<close>

theorem constructor_defaults:
  "config (new_HashubVector (config_of_key k)) =
     \<lparr>RequiredConfig.apiKey = k, baseUrl = ''https://api.vector.hashub.dev'', timeout = 30000,
      maxRetries = 3, headers = []\<rparr> \<and>
   RequiredConfig.apiKey (config (new_HashubVector cfg)) = HashubVectorConfig.apiKey cfg \<and>
   RequiredConfig.baseUrl
     (config (new_HashubVector (cfg\<lparr>HashubVectorConfig.baseUrl := Some b\<rparr>))) = b \<and>
   RequiredConfig.timeout
     (config (new_HashubVector (cfg\<lparr>HashubVectorConfig.timeout := Some t\<rparr>))) = t \<and>
   RequiredConfig.maxRetries
     (config (new_HashubVector (cfg\<lparr>HashubVectorConfig.maxRetries := Some n\<rparr>))) = n \<and>
   RequiredConfig.headers
     (config (new_HashubVector (cfg\<lparr>HashubVectorConfig.headers := Some h\<rparr>))) = h"
  by (simp add: new_HashubVector_def stored_config_def config_of_key_def spread_over_def Let_def)




text \<open>
  Claim C10. With at least one attempt allowed, every request that \<open>vectorize\<close>,
  \<open>vectorizeBatch\<close> and \<open>similarity\<close> issue has the body built from the call's request,
  whose \<open>model\<close> is \<open>e5_base\<close> when the caller left the model out and the caller's model
  otherwise.
\<close>

theorem default_model_substituted:
  assumes "1 \<le> RequiredConfig.maxRetries (config this)"
  shows
    "set (map snd (issued (fst (vectorize this vreq tr1)))) =
       {the_request POST ''/vectorize''
          (JObj [(''text'', JStr (text' vreq)),
                 (''model'', JStr (case VectorizeRequest.model vreq of
                                     None \<Rightarrow> ''e5_base'' | Some x \<Rightarrow> model_string x)),
                 (''chunk_size'', number_val (VectorizeRequest.chunkSize vreq)),
                 (''chunk_overlap'', number_val (VectorizeRequest.chunkOverlap vreq))])
          None} \<and>
     set (map snd (issued (fst (vectorizeBatch this breq tr2)))) =
       {the_request POST ''/vectorize-batch''
          (JObj [(''texts'', JArr (map JStr (texts breq))),
                 (''model'', JStr (case VectorizeBatchRequest.model breq of
                                     None \<Rightarrow> ''e5_base'' | Some x \<Rightarrow> model_string x)),
                 (''chunk_size'', number_val (VectorizeBatchRequest.chunkSize breq)),
                 (''chunk_overlap'', number_val (VectorizeBatchRequest.chunkOverlap breq))])
          None} \<and>
     set (map snd (issued (fst (similarity this sreq tr3)))) =
       {the_request POST ''/similarity''
          (JObj [(''text1'', JStr (text1 sreq)),
                 (''text2'', JStr (text2 sreq)),
                 (''model'', JStr (case SimilarityRequest.model sreq of
                                     None \<Rightarrow> ''e5_base'' | Some x \<Rightarrow> model_string x))])
          None}"
  unfolding vectorize_def vectorizeBatch_def similarity_def default_model
  by (intro conjI makeRequest_requests assms)

text \<open>
  \<open>similarity\<close> without a model sends \<open>model: e5_base\<close>; with \<open>gte_base\<close> it sends
  \<open>model: gte_base\<close>.
\<close>

theorem default_model_substituted_witness:
  "set (map snd (issued (fst (similarity (new_HashubVector (config_of_key ''k''))
          \<lparr>text1 = ''a'', text2 = ''b'', model = None\<rparr> (always_resolves ())))))
     = {the_request POST ''/similarity''
          (JObj [(''text1'', JStr ''a''), (''text2'', JStr ''b''), (''model'', JStr ''e5_base'')])
          None} \<and>
   set (map snd (issued (fst (similarity (new_HashubVector (config_of_key ''k''))
          \<lparr>text1 = ''a'', text2 = ''b'', model = Some gte_base\<rparr> (always_resolves ())))))
     = {the_request POST ''/similarity''
          (JObj [(''text1'', JStr ''a''), (''text2'', JStr ''b''), (''model'', JStr ''gte_base'')])
          None}"
proof -
  have m: "1 \<le> RequiredConfig.maxRetries (config (new_HashubVector (config_of_key ''k'')))"
    by simp
  note sim = default_model_substituted [OF m, THEN conjunct2, THEN conjunct2]
  show ?thesis
    using sim [of "\<lparr>text1 = ''a'', text2 = ''b'', model = None\<rparr>" "always_resolves ()"]
      sim [of "\<lparr>text1 = ''a'', text2 = ''b'', model = Some gte_base\<rparr>" "always_resolves ()"]
    by simp
qed

section \<open>The claims about the request executor\<close>

text \<open>
  When \<open>maxRetries\<close> is zero or negative the loop body never runs: no request is issued
  and the initial \<open>lastError\<close>, \<open>undefined\<close>, is thrown.
\<close>

lemma makeRequest_no_attempt:
  "RequiredConfig.maxRetries (config this) \<le> 0 \<Longrightarrow>
   makeRequest this m ep d cfg tr = ([], Inl ThrownUndefined)"
  by (simp add: makeRequest_def loop_exhausted)

text \<open>
  With at least one attempt allowed, a call ends after some attempt \<open>k\<close>, all attempts
  before it having been rejected, and its result is that attempt's: the decoded body when
  it resolved, and what the interceptor threw when it was rejected.
\<close>

lemma makeRequest_last_attempt:
  fixes tr :: "nat \<Rightarrow> 'a outcome"
  assumes "1 \<le> RequiredConfig.maxRetries (config this)"
  shows "\<exists>k. int k < RequiredConfig.maxRetries (config this) \<and>
             issued (fst (makeRequest this m ep d cfg tr)) =
               replicate (Suc k) (client this, the_request m ep d cfg) \<and>
             (\<forall>i<k. \<exists>f. tr i = Rejected f) \<and>
             snd (makeRequest this m ep d cfg tr) = settle (tr k)"
proof -
  from final_attempt_exists [OF assms, of tr] obtain k where
    k: "int k < RequiredConfig.maxRetries (config this)" "\<forall>i<k. will_retry (tr i)"
       "\<not> will_retry (tr k) \<or> int k = RequiredConfig.maxRetries (config this) - 1"
    by blast
  have mr: "makeRequest this m ep d cfg tr =
              (attempts_trace (client this) (the_request m ep d cfg) 0 k, settle (tr k))"
    by (rule makeRequest_char [OF k])
  have iss: "issued (fst (makeRequest this m ep d cfg tr)) =
               replicate (Suc k) (client this, the_request m ep d cfg)"
    by (simp add: mr issued_attempts_trace)
  have "\<exists>f. out = Rejected f" if "will_retry out" for out :: "'a outcome"
    using that by (cases out) (simp_all add: will_retry_def)
  with k(2) have rej: "\<forall>i<k. \<exists>f. tr i = Rejected f"
    by blast
  from k(1) iss rej mr show ?thesis by auto
qed

text \<open>
  Claim C1, as the code has it. Retryable are the failures classified as rate-limit,
  server, network or timeout errors, and the unclassified ones whose status is not a 4xx
  one. With \<open>maxRetries = n\<close>: when all \<open>n\<close> attempts fail retryably, the call makes
  exactly \<open>n\<close> requests, waits \<open>2 ^ i * 1000\<close> ms after attempt \<open>i\<close> for every attempt
  but the last, waits nothing after the last, and throws the classified error of the last
  attempt; when an attempt \<open>k < n\<close> succeeds after \<open>k\<close> retryable failures, the call
  stops there, having waited after each of the failures. An unclassified failure with a
  status from 400 to 499 is not retried: the call throws its error at once, after the
  request of that attempt. With \<open>maxRetries = 1\<close> every failure is thrown after one
  request and no wait.
\<close>

theorem retry_with_backoff:
  fixes tr :: "nat \<Rightarrow> 'a outcome"
  assumes "RequiredConfig.maxRetries (config this) = int n"
    and "c = client this" and "req = the_request m ep d cfg"
  shows "(1 \<le> n \<and> (\<forall>i<n. fails_retryably (tr i)) \<longrightarrow>
            (\<exists>f e. tr (n - 1) = Rejected f \<and> handleError f = Inr e \<and>
               makeRequest this m ep d cfg tr =
                 (concat (map (\<lambda>i. [HttpRequest c req, Sleep (2 ^ i * 1000)]) [0..<n - 1])
                    @ [HttpRequest c req],
                  Inl (ThrownError e)))) \<and>
         (\<forall>k x. k < n \<and> (\<forall>i<k. fails_retryably (tr i)) \<and> tr k = Resolved x \<longrightarrow>
            makeRequest this m ep d cfg tr =
              (concat (map (\<lambda>i. [HttpRequest c req, Sleep (2 ^ i * 1000)]) [0..<k])
                 @ [HttpRequest c req],
               Inr x)) \<and>
         (\<forall>k f e s. k < n \<and> (\<forall>i<k. fails_retryably (tr i)) \<and> tr k = Rejected f \<and>
              handleError f = Inr e \<and> cls e = HashubVectorErrorC \<and>
              HashubVectorError.status e = Some s \<and> 400 \<le> s \<and> s < 500 \<longrightarrow>
            makeRequest this m ep d cfg tr =
              (concat (map (\<lambda>i. [HttpRequest c req, Sleep (2 ^ i * 1000)]) [0..<k])
                 @ [HttpRequest c req],
               Inl (ThrownError e))) \<and>
         (\<forall>f. n = 1 \<and> tr 0 = Rejected f \<longrightarrow>
            makeRequest this m ep d cfg tr = ([HttpRequest c req], Inl (intercept f)))"
proof (intro conjI impI allI)
  assume h: "1 \<le> n \<and> (\<forall>i<n. fails_retryably (tr i))"
  then have "fails_retryably (tr (n - 1))" by simp
  from fails_retryably_settle [OF this] obtain f e where
    fe: "tr (n - 1) = Rejected f" "handleError f = Inr e" "settle (tr (n - 1)) = Inl (ThrownError e)"
    by blast
  have "makeRequest this m ep d cfg tr = (attempts_trace c req 0 (n - 1), settle (tr (n - 1)))"
    unfolding assms(2,3) using h assms(1)
    by (intro makeRequest_char) (auto simp: fails_retryably_will_retry)
  with fe show "\<exists>f e. tr (n - 1) = Rejected f \<and> handleError f = Inr e \<and>
               makeRequest this m ep d cfg tr =
                 (concat (map (\<lambda>i. [HttpRequest c req, Sleep (2 ^ i * 1000)]) [0..<n - 1])
                    @ [HttpRequest c req],
                  Inl (ThrownError e))"
    by (simp add: attempts_trace_def)
next
  fix k x
  assume h: "k < n \<and> (\<forall>i<k. fails_retryably (tr i)) \<and> tr k = Resolved x"
  have "\<not> will_retry (tr k)" using h by (simp add: will_retry_def)
  then have "makeRequest this m ep d cfg tr = (attempts_trace c req 0 k, settle (tr k))"
    unfolding assms(2,3) using h assms(1)
    by (intro makeRequest_char) (auto simp: fails_retryably_will_retry)
  with h show "makeRequest this m ep d cfg tr =
              (concat (map (\<lambda>i. [HttpRequest c req, Sleep (2 ^ i * 1000)]) [0..<k])
                 @ [HttpRequest c req],
               Inr x)"
    by (simp add: attempts_trace_def settle_def)
next
  fix k f e s
  assume h: "k < n \<and> (\<forall>i<k. fails_retryably (tr i)) \<and> tr k = Rejected f \<and>
              handleError f = Inr e \<and> cls e = HashubVectorErrorC \<and>
              HashubVectorError.status e = Some s \<and> 400 \<le> s \<and> s < 500"
  then have "is_client_error (intercept f)"
    by (intro status_4xx_is_client_error [of f e s]) simp_all
  with h have "\<not> will_retry (tr k)" by (simp add: will_retry_def)
  then have "makeRequest this m ep d cfg tr = (attempts_trace c req 0 k, settle (tr k))"
    unfolding assms(2,3) using h assms(1)
    by (intro makeRequest_char) (auto simp: fails_retryably_will_retry)
  with h show "makeRequest this m ep d cfg tr =
              (concat (map (\<lambda>i. [HttpRequest c req, Sleep (2 ^ i * 1000)]) [0..<k])
                 @ [HttpRequest c req],
               Inl (ThrownError e))"
    by (simp add: attempts_trace_def settle_rejected)
next
  fix f
  assume h: "n = 1 \<and> tr 0 = Rejected f"
  have "makeRequest this m ep d cfg tr = (attempts_trace c req 0 0, settle (tr 0))"
    unfolding assms(2,3) using h assms(1)
    by (intro makeRequest_char) auto
  with h show "makeRequest this m ep d cfg tr = ([HttpRequest c req], Inl (intercept f))"
    by (simp add: attempts_trace_def settle_def)
qed

lemma handleError_unclassified:
  "map_of status_table s = None \<Longrightarrow>
   handleError (http_failure s (JStr b) no_headers) = Inr (api_error ''Unknown error'' s (JStr b))"
  by (simp add: handleError_http_failure http_error_def)

text \<open>
  With the default three attempts and HTTP 503 on each, the call issues three requests
  with waits of 1000 and 2000 ms between them and throws a \<open>ServerError\<close>; when the
  second attempt succeeds it stops after one wait; an HTTP 403 on the first attempt is
  thrown at once; with \<open>maxRetries: 1\<close> the call issues one request and waits nothing.
\<close>

theorem retry_with_backoff_witness:
  "makeRequest (new_HashubVector (config_of_key ''k'')) GET ''/usage'' JUndefined None
     (always_rejects (http_failure 503 JNull no_headers) :: nat \<Rightarrow> unit outcome) =
     ([HttpRequest (client (new_HashubVector (config_of_key ''k''))) (the_request GET ''/usage'' JUndefined None),
       Sleep 1000,
       HttpRequest (client (new_HashubVector (config_of_key ''k''))) (the_request GET ''/usage'' JUndefined None),
       Sleep 2000,
       HttpRequest (client (new_HashubVector (config_of_key ''k''))) (the_request GET ''/usage'' JUndefined None)],
      Inl (ThrownError (sdk_error ServerErrorC ''Unknown error''))) \<and>
   makeRequest (new_HashubVector (config_of_key ''k'')) GET ''/usage'' JUndefined None
     (rejects_then_resolves (http_failure 503 JNull no_headers) 1 ()) =
     ([HttpRequest (client (new_HashubVector (config_of_key ''k''))) (the_request GET ''/usage'' JUndefined None),
       Sleep 1000,
       HttpRequest (client (new_HashubVector (config_of_key ''k''))) (the_request GET ''/usage'' JUndefined None)],
      Inr ()) \<and>
   makeRequest (new_HashubVector (config_of_key ''k'')) GET ''/usage'' JUndefined None
     (always_rejects (http_failure 403 (JStr ''Forbidden'') no_headers) :: nat \<Rightarrow> unit outcome) =
     ([HttpRequest (client (new_HashubVector (config_of_key ''k''))) (the_request GET ''/usage'' JUndefined None)],
      Inl (ThrownError (api_error ''Unknown error'' 403 (JStr ''Forbidden'')))) \<and>
   makeRequest (new_HashubVector (attempts_config ''k'' 1)) GET ''/usage'' JUndefined None
     (always_rejects (http_failure 503 JNull no_headers) :: nat \<Rightarrow> unit outcome) =
     ([HttpRequest (client (new_HashubVector (attempts_config ''k'' 1))) (the_request GET ''/usage'' JUndefined None)],
      Inl (ThrownError (sdk_error ServerErrorC ''Unknown error'')))"
proof (intro conjI)
  let ?f = "http_failure 503 JNull no_headers"
  let ?g = "http_failure 403 (JStr ''Forbidden'') no_headers"
  let ?hv = "new_HashubVector (config_of_key ''k'')"
  have three: "RequiredConfig.maxRetries (config ?hv) = int 3" by simp
  note rb = retry_with_backoff [OF three refl refl]
  have "1 \<le> (3::nat) \<and> (\<forall>i<3. fails_retryably ((always_rejects ?f :: nat \<Rightarrow> unit outcome) i))"
    by (simp add: always_rejects_def)
  from rb [THEN conjunct1, rule_format, OF this, of GET "''/usage''" JUndefined None]
  obtain f e where fe: "(always_rejects ?f :: nat \<Rightarrow> unit outcome) (3 - 1) = Rejected f"
      "handleError f = Inr e"
    and mr: "makeRequest ?hv GET ''/usage'' JUndefined None (always_rejects ?f :: nat \<Rightarrow> unit outcome) =
      (concat (map (\<lambda>i. [HttpRequest (client ?hv) (the_request GET ''/usage'' JUndefined None),
                            Sleep (2 ^ i * 1000)]) [0..<3 - 1])
         @ [HttpRequest (client ?hv) (the_request GET ''/usage'' JUndefined None)],
       Inl (ThrownError e))"
    by blast
  from fe have "e = sdk_error ServerErrorC ''Unknown error''"
    by (auto simp: always_rejects_def handleError_503)
  with mr show "makeRequest ?hv GET ''/usage'' JUndefined None (always_rejects ?f :: nat \<Rightarrow> unit outcome) =
     ([HttpRequest (client ?hv) (the_request GET ''/usage'' JUndefined None), Sleep 1000,
       HttpRequest (client ?hv) (the_request GET ''/usage'' JUndefined None), Sleep 2000,
       HttpRequest (client ?hv) (the_request GET ''/usage'' JUndefined None)],
      Inl (ThrownError (sdk_error ServerErrorC ''Unknown error'')))"
    by (simp add: upt_conv_Cons)
  have "1 < (3::nat) \<and> (\<forall>i<1. fails_retryably (rejects_then_resolves ?f 1 () i)) \<and>
        rejects_then_resolves ?f 1 () 1 = Resolved ()"
    by (simp add: rejects_then_resolves_def)
  from rb [THEN conjunct2, THEN conjunct1, rule_format, OF this, of GET "''/usage''" JUndefined None]
  show "makeRequest ?hv GET ''/usage'' JUndefined None (rejects_then_resolves ?f 1 ()) =
     ([HttpRequest (client ?hv) (the_request GET ''/usage'' JUndefined None), Sleep 1000,
       HttpRequest (client ?hv) (the_request GET ''/usage'' JUndefined None)],
      Inr ())"
    by simp
  have u: "handleError ?g = Inr (api_error ''Unknown error'' 403 (JStr ''Forbidden''))"
    by (simp add: handleError_unclassified status_table_cases)
  have "0 < (3::nat) \<and> (\<forall>i<0. fails_retryably ((always_rejects ?g :: nat \<Rightarrow> unit outcome) i)) \<and>
        (always_rejects ?g :: nat \<Rightarrow> unit outcome) 0 = Rejected ?g \<and>
        handleError ?g = Inr (api_error ''Unknown error'' 403 (JStr ''Forbidden'')) \<and>
        cls (api_error ''Unknown error'' 403 (JStr ''Forbidden'')) = HashubVectorErrorC \<and>
        HashubVectorError.status (api_error ''Unknown error'' 403 (JStr ''Forbidden'')) = Some 403 \<and>
        (400::int) \<le> 403 \<and> (403::int) < 500"
    by (simp add: always_rejects_def u)
  from retry_with_backoff [where tr = "always_rejects ?g :: nat \<Rightarrow> unit outcome" and m = GET
      and ep = "''/usage''" and d = JUndefined and cfg = None,
      OF three refl refl, THEN conjunct2, THEN conjunct2, THEN conjunct1, rule_format, OF this]
  show "makeRequest ?hv GET ''/usage'' JUndefined None (always_rejects ?g :: nat \<Rightarrow> unit outcome) =
     ([HttpRequest (client ?hv) (the_request GET ''/usage'' JUndefined None)],
      Inl (ThrownError (api_error ''Unknown error'' 403 (JStr ''Forbidden''))))"
    by simp
  let ?one = "new_HashubVector (attempts_config ''k'' 1)"
  have one: "RequiredConfig.maxRetries (config ?one) = int 1" by simp
  have "(1::nat) = 1 \<and> (always_rejects ?f :: nat \<Rightarrow> unit outcome) 0 = Rejected ?f"
    by (simp add: always_rejects_def)
  from retry_with_backoff [where tr = "always_rejects ?f :: nat \<Rightarrow> unit outcome" and m = GET
      and ep = "''/usage''" and d = JUndefined and cfg = None,
      OF one refl refl, THEN conjunct2, THEN conjunct2, THEN conjunct2, rule_format, OF this]
  show "makeRequest ?one GET ''/usage'' JUndefined None (always_rejects ?f :: nat \<Rightarrow> unit outcome) =
     ([HttpRequest (client ?one) (the_request GET ''/usage'' JUndefined None)],
      Inl (ThrownError (sdk_error ServerErrorC ''Unknown error'')))"
    by (simp add: intercept_def handleError_503)
qed

text \<open>
  An unclassified failure with a 4xx status is not retried: with three attempts allowed
  and HTTP 404 on each, the call issues one request, waits nothing and throws the plain
  \<open>HashubVectorError\<close>.
\<close>

theorem unclassified_4xx_not_retried:
  "RequiredConfig.maxRetries (config (new_HashubVector (config_of_key ''k''))) = 3 \<and>
   handleError (http_failure 404 (JStr ''Not Found'') no_headers) =
     Inr (api_error ''Unknown error'' 404 (JStr ''Not Found'')) \<and>
   cls (api_error ''Unknown error'' 404 (JStr ''Not Found'')) = HashubVectorErrorC \<and>
   makeRequest (new_HashubVector (config_of_key ''k'')) GET ''/usage'' JUndefined None
     (always_rejects (http_failure 404 (JStr ''Not Found'') no_headers) :: nat \<Rightarrow> unit outcome) =
     ([HttpRequest (client (new_HashubVector (config_of_key ''k'')))
         (the_request GET ''/usage'' JUndefined None)],
      Inl (ThrownError (api_error ''Unknown error'' 404 (JStr ''Not Found''))))"
proof (intro conjI)
  let ?f = "http_failure 404 (JStr ''Not Found'') no_headers"
  let ?hv = "new_HashubVector (config_of_key ''k'')"
  show "RequiredConfig.maxRetries (config ?hv) = 3" by simp
  show h: "handleError ?f = Inr (api_error ''Unknown error'' 404 (JStr ''Not Found''))"
    by (simp add: handleError_unclassified status_table_cases)
  show "cls (api_error ''Unknown error'' 404 (JStr ''Not Found'')) = HashubVectorErrorC" by simp
  have "\<not> will_retry ((always_rejects ?f :: nat \<Rightarrow> unit outcome) 0)"
    by (simp add: will_retry_def always_rejects_def intercept_def h is_client_error_def)
  then have "makeRequest ?hv GET ''/usage'' JUndefined None (always_rejects ?f :: nat \<Rightarrow> unit outcome) =
      (attempts_trace (client ?hv) (the_request GET ''/usage'' JUndefined None) 0 0,
       settle ((always_rejects ?f :: nat \<Rightarrow> unit outcome) 0))"
    by (intro makeRequest_char) simp_all
  then show "makeRequest ?hv GET ''/usage'' JUndefined None (always_rejects ?f :: nat \<Rightarrow> unit outcome) =
     ([HttpRequest (client ?hv) (the_request GET ''/usage'' JUndefined None)],
      Inl (ThrownError (api_error ''Unknown error'' 404 (JStr ''Not Found''))))"
    by (simp add: attempts_trace_same settle_def always_rejects_def intercept_def h)
qed

text \<open>
  Claim C2. When an attempt fails with a failure classified as an authentication, quota
  or validation error, the call throws that error at once: the request of that attempt is
  the last effect, with no wait and no further request. When it is the first attempt,
  the call makes exactly one request.
\<close>

theorem terminal_errors_not_retried:
  fixes tr :: "nat \<Rightarrow> 'a outcome"
  assumes "int k < RequiredConfig.maxRetries (config this)"
    and "\<forall>i<k. fails_retryably (tr i)"
    and "tr k = Rejected f"
    and "handleError f = Inr e"
    and "cls e \<in> {AuthenticationErrorC, QuotaExceededErrorC, ValidationErrorC}"
    and "c = client this" and "req = the_request m ep d cfg"
  shows "makeRequest this m ep d cfg tr =
           (concat (map (\<lambda>i. [HttpRequest c req, Sleep (2 ^ i * 1000)]) [0..<k])
              @ [HttpRequest c req],
            Inl (ThrownError e)) \<and>
         (k = 0 \<longrightarrow> makeRequest this m ep d cfg tr = ([HttpRequest c req], Inl (ThrownError e)))"
proof -
  have "\<not> will_retry (tr k)"
    using terminal_is_client_error [OF assms(4,5)] assms(3) by (simp add: will_retry_def)
  then have "makeRequest this m ep d cfg tr = (attempts_trace c req 0 k, settle (tr k))"
    unfolding assms(6,7) using assms(1,2)
    by (intro makeRequest_char) (auto simp: fails_retryably_will_retry)
  then have "makeRequest this m ep d cfg tr =
           (concat (map (\<lambda>i. [HttpRequest c req, Sleep (2 ^ i * 1000)]) [0..<k])
              @ [HttpRequest c req],
            Inl (ThrownError e))"
    using assms(3,4) by (simp add: attempts_trace_def settle_rejected)
  then show ?thesis by simp
qed

text \<open>
  With three attempts allowed and HTTP 401 on each, the call issues one request and throws
  the \<open>AuthenticationError\<close>.
\<close>

theorem terminal_errors_not_retried_witness:
  "makeRequest (new_HashubVector (config_of_key ''k'')) GET ''/usage'' JUndefined None
     (always_rejects (http_failure 401 (JObj [(''message'', JStr ''bad key'')]) no_headers)
        :: nat \<Rightarrow> unit outcome) =
     ([HttpRequest (client (new_HashubVector (config_of_key ''k'')))
         (the_request GET ''/usage'' JUndefined None)],
      Inl (ThrownError (sdk_error AuthenticationErrorC ''bad key'')))"
proof -
  let ?f = "http_failure 401 (JObj [(''message'', JStr ''bad key'')]) no_headers"
  let ?hv = "new_HashubVector (config_of_key ''k'')"
  have k: "int 0 < RequiredConfig.maxRetries (config ?hv)" by simp
  have r: "\<forall>i<0. fails_retryably ((always_rejects ?f :: nat \<Rightarrow> unit outcome) i)" by simp
  have t: "(always_rejects ?f :: nat \<Rightarrow> unit outcome) 0 = Rejected ?f"
    by (simp add: always_rejects_def)
  have h: "handleError ?f = Inr (sdk_error AuthenticationErrorC ''bad key'')"
    by (simp add: handleError_http_failure preferred_message_def body_field_def http_error_def
        status_table_cases)
  have c: "cls (sdk_error AuthenticationErrorC ''bad key'')
             \<in> {AuthenticationErrorC, QuotaExceededErrorC, ValidationErrorC}"
    by simp
  from terminal_errors_not_retried [OF k r t h c refl refl, THEN conjunct2]
  show ?thesis by simp
qed

text \<open>
  Claim C4. A call can end with neither a decoded result nor a classified error. With
  three attempts allowed and, on each, HTTP 401 with the body
  \<open>{"message": {"toString": null}}\<close>, classifying the failure throws a TypeError, which
  has no status: the call retries twice and throws the TypeError, not the authentication
  error of its last attempt. With \<open>maxRetries: 0\<close> a call issues no request and throws
  \<open>undefined\<close>, even on a transport that would answer.
\<close>

theorem makeRequest_unclassified_throw:
  "makeRequest (new_HashubVector (config_of_key ''k'')) GET ''/usage'' JUndefined None
     (always_rejects (http_failure 401 unprintable_body no_headers) :: nat \<Rightarrow> unit outcome) =
     ([HttpRequest (client (new_HashubVector (config_of_key ''k''))) (the_request GET ''/usage'' JUndefined None),
       Sleep 1000,
       HttpRequest (client (new_HashubVector (config_of_key ''k''))) (the_request GET ''/usage'' JUndefined None),
       Sleep 2000,
       HttpRequest (client (new_HashubVector (config_of_key ''k''))) (the_request GET ''/usage'' JUndefined None)],
      Inl (ThrownException TypeError)) \<and>
   makeRequest (new_HashubVector (attempts_config ''k'' 0)) GET ''/usage'' JUndefined None
     (always_resolves ()) =
     ([], Inl ThrownUndefined)"
proof
  let ?f = "http_failure 401 unprintable_body no_headers"
  let ?hv = "new_HashubVector (config_of_key ''k'')"
  let ?tr = "always_rejects ?f :: nat \<Rightarrow> unit outcome"
  have i: "intercept ?f = ThrownException TypeError"
    by (simp add: intercept_def handleError_unprintable)
  have w: "will_retry (?tr i)" for i
    by (simp add: will_retry_def always_rejects_def i is_client_error_def)
  have "makeRequest ?hv GET ''/usage'' JUndefined None ?tr =
          (attempts_trace (client ?hv) (the_request GET ''/usage'' JUndefined None) 0 2,
           settle (?tr 2))"
    by (intro makeRequest_char) (simp_all add: w)
  then show "makeRequest ?hv GET ''/usage'' JUndefined None ?tr =
     ([HttpRequest (client ?hv) (the_request GET ''/usage'' JUndefined None), Sleep 1000,
       HttpRequest (client ?hv) (the_request GET ''/usage'' JUndefined None), Sleep 2000,
       HttpRequest (client ?hv) (the_request GET ''/usage'' JUndefined None)],
      Inl (ThrownException TypeError))"
    by (simp add: attempts_trace_def settle_def always_rejects_def i upt_conv_Cons)
  show "makeRequest (new_HashubVector (attempts_config ''k'' 0)) GET ''/usage'' JUndefined None
          (always_resolves ()) = ([], Inl ThrownUndefined)"
    by (rule makeRequest_no_attempt) simp
qed

end
